theory Spec2Isabelle
  imports Complex_Main "HOL-Library.Stream"
begin

unbundle bit_operations_syntax

section \<open>Python values, errors and containers\<close>

text \<open>
  The converter is Python. Its integers are unbounded (\<open>int\<close>); \<open>//\<close> and \<open>%\<close> round
  towards minus infinity as \<open>div\<close> and \<open>mod\<close> do; \<open>&\<close>, \<open>|\<close>, \<open><<\<close> and \<open>>>\<close> act on the
  infinite two's complement representation as \<open>AND\<close>, \<open>OR\<close>, \<open>push_bit\<close> and \<open>drop_bit\<close> on
  \<open>int\<close> do. An exception that is raised and not caught ends the run: it is the \<open>Inl\<close> branch
  of a sum.
\<close>

datatype py_error =
    AttributeError string string
  | ValueError
  | IndexError

text \<open>\<open>for a in xs: body\<close>, where the body may raise.\<close>

fun for_each :: "('a \<Rightarrow> 's \<Rightarrow> py_error + 's) \<Rightarrow> 'a list \<Rightarrow> 's \<Rightarrow> py_error + 's" where
  "for_each f [] s = Inr s"
| "for_each f (a # as) s = (case f a s of Inl e \<Rightarrow> Inl e | Inr s' \<Rightarrow> for_each f as s')"

text \<open>\<open>range(a, b)\<close> as the list of its values.\<close>

definition py_range :: "int \<Rightarrow> int \<Rightarrow> int list" where
  "py_range a b = [a..b - 1]"

section \<open>Data structures (osm2ultima.py)\<close>

record UltimaObject =
  o_shape :: int
  o_frame :: int
  o_x :: int
  o_y :: int
  o_lift :: int
  o_quality :: int
  o_flags :: int

text \<open>\<open>UltimaObject(shape=s, x=x, y=y, lift=l)\<close>: the other fields take their defaults.\<close>

definition UltimaObject_new :: "int \<Rightarrow> int \<Rightarrow> int \<Rightarrow> int \<Rightarrow> UltimaObject" where
  "UltimaObject_new s tx ty l =
     \<lparr>o_shape = s, o_frame = 0, o_x = tx, o_y = ty, o_lift = l, o_quality = 0, o_flags = 0\<rparr>"

record NPCProfile =
  p_id :: string
  p_name :: string
  p_profession :: string
  p_building_type :: string
  p_location :: "int \<times> int"
  p_shape :: int
  p_openness :: real
  p_conscientiousness :: real
  p_extraversion :: real
  p_agreeableness :: real
  p_neuroticism :: real
  p_dialogues :: "string list"
  p_schedule :: string
  p_knowledge_domains :: "string list"
  p_relationships :: "string \<rightharpoonup> real"

record UltimaChunk =
  terrain :: "int list list"
  objects :: "UltimaObject list"

text \<open>
  The default factories of \<open>UltimaChunk\<close>: sixteen separate rows of sixteen tiles of
  shape 4, and no objects.
\<close>

definition UltimaChunk_new :: UltimaChunk where
  "UltimaChunk_new = \<lparr>terrain = replicate 16 (replicate 16 4), objects = []\<rparr>"

text \<open>
  \<open>UltimaMap.chunks\<close> is a dictionary from chunk coordinates to chunk objects, and
  \<open>get_chunk\<close> hands out references to these objects, through which callers mutate them.
  The chunk objects live in a store (\<open>cells\<close>, addressed by index); the dictionary holds
  references into it. A new object is allocated at the end of the store.
\<close>

type_synonym ref = nat

record UltimaMap =
  width_chunks :: int
  height_chunks :: int
  chunks :: "(int \<times> int) \<rightharpoonup> ref"
  cells :: "UltimaChunk list"

definition UltimaMap_new :: "int \<Rightarrow> int \<Rightarrow> UltimaMap" where
  "UltimaMap_new w h = \<lparr>width_chunks = w, height_chunks = h, chunks = Map.empty, cells = []\<rparr>"

definition get_chunk :: "int \<Rightarrow> int \<Rightarrow> UltimaMap \<Rightarrow> ref \<times> UltimaMap" where
  "get_chunk cx cy m =
     (case chunks m (cx, cy) of
        None \<Rightarrow>
          (length (cells m),
           m\<lparr>chunks := (chunks m)((cx, cy) \<mapsto> length (cells m)),
             cells := cells m @ [UltimaChunk_new]\<rparr>)
      | Some r \<Rightarrow> (r, m))"

text \<open>A write to the chunk object behind a reference.\<close>

definition update_chunk :: "ref \<Rightarrow> (UltimaChunk \<Rightarrow> UltimaChunk) \<Rightarrow> UltimaMap \<Rightarrow> UltimaMap" where
  "update_chunk r f m = m\<lparr>cells := (cells m)[r := f (cells m ! r)]\<rparr>"

text \<open>\<open>chunk.terrain[ly][lx] = shape\<close>.\<close>

definition terrain_store :: "int \<Rightarrow> int \<Rightarrow> int \<Rightarrow> UltimaChunk \<Rightarrow> UltimaChunk" where
  "terrain_store ly lx v c =
     c\<lparr>terrain := (terrain c)[nat ly := (terrain c ! nat ly)[nat lx := v]]\<rparr>"

definition set_terrain :: "int \<Rightarrow> int \<Rightarrow> int \<Rightarrow> UltimaMap \<Rightarrow> UltimaMap" where
  "set_terrain tile_x tile_y v m =
     (let cx = tile_x div 16; cy = tile_y div 16;
          lx = tile_x mod 16; ly = tile_y mod 16;
          (r, m') = get_chunk cx cy m
      in update_chunk r (terrain_store ly lx v) m')"

definition add_object :: "UltimaObject \<Rightarrow> UltimaMap \<Rightarrow> UltimaMap" where
  "add_object obj m =
     (let cx = o_x obj div 16; cy = o_y obj div 16;
          (r, m') = get_chunk cx cy m
      in update_chunk r (\<lambda>c. c\<lparr>objects := objects c @ [obj]\<rparr>) m')"

text \<open>
  The representation invariant of the store: every reference of the dictionary points
  into the store, no chunk object is shared by two coordinates, and every terrain grid
  is 16 by 16 (so the indices \<open>ly\<close>, \<open>lx\<close> of \<open>set_terrain\<close> are in range and Python raises
  no IndexError).
\<close>

definition chunk_16 :: "UltimaChunk \<Rightarrow> bool" where
  "chunk_16 c \<longleftrightarrow> length (terrain c) = 16 \<and> list_all (\<lambda>row. length row = 16) (terrain c)"

definition wf_map :: "UltimaMap \<Rightarrow> bool" where
  "wf_map m \<longleftrightarrow>
     (\<forall>k r. chunks m k = Some r \<longrightarrow> r < length (cells m)) \<and>
     (\<forall>k k' r. chunks m k = Some r \<longrightarrow> chunks m k' = Some r \<longrightarrow> k = k') \<and>
     list_all chunk_16 (cells m)"

text \<open>Reading the map: the terrain id of a tile, and the objects placed on a tile.\<close>

definition terrain_at :: "UltimaMap \<Rightarrow> int \<Rightarrow> int \<Rightarrow> int option" where
  "terrain_at m tx ty =
     (case chunks m (tx div 16, ty div 16) of
        None \<Rightarrow> None
      | Some r \<Rightarrow> Some (terrain (cells m ! r) ! nat (ty mod 16) ! nat (tx mod 16)))"

definition chunk_objects :: "UltimaMap \<Rightarrow> int \<times> int \<Rightarrow> UltimaObject list" where
  "chunk_objects m k = (case chunks m k of None \<Rightarrow> [] | Some r \<Rightarrow> objects (cells m ! r))"

definition objects_at :: "UltimaMap \<Rightarrow> int \<Rightarrow> int \<Rightarrow> UltimaObject list" where
  "objects_at m tx ty =
     filter (\<lambda>obj. o_x obj = tx \<and> o_y obj = ty) (chunk_objects m (tx div 16, ty div 16))"


section \<open>IREG records (osm2ultima.py, lines 81 to 101 and 1062 to 1082)\<close>

definition bind_err :: "'e + 'a \<Rightarrow> ('a \<Rightarrow> 'e + 'b) \<Rightarrow> 'e + 'b" where
  "bind_err r f = (case r of Inl e \<Rightarrow> Inl e | Inr v \<Rightarrow> f v)"

text \<open>
  \<open>buf[i] = v\<close> on a \<open>bytearray\<close>: Python raises ValueError unless \<open>v\<close> is in
  \<open>range(256)\<close>.
\<close>

definition bytearray_set :: "int list \<Rightarrow> nat \<Rightarrow> int \<Rightarrow> py_error + int list" where
  "bytearray_set buf i v = (if 0 \<le> v \<and> v < 256 then Inr (buf[i := v]) else Inl ValueError)"

text \<open>
  The body of \<open>to_ireg_bytes\<close>, over the instance it is called on: \<open>self\<close> is given by
  its attribute lookup, which raises AttributeError for a name the instance does not have.
  The statements are in the source's order.
\<close>

definition to_ireg_bytes :: "(string \<Rightarrow> py_error + int) \<Rightarrow> py_error + int list" where
  "to_ireg_bytes self =
     bind_err (self ''x'') (\<lambda>sx. let chunk_x = sx div 16 in
     bind_err (self ''y'') (\<lambda>sy. let chunk_y = sy div 16 in
     bind_err (self ''x'') (\<lambda>sx'. let local_x = sx' mod 16 in
     bind_err (self ''y'') (\<lambda>sy'. let local_y = sy' mod 16 in
     bind_err (bytearray_set (replicate 10 0) 0 10) (\<lambda>buf0.
     bind_err (bytearray_set buf0 1 (push_bit 4 (chunk_x mod 16) OR local_x)) (\<lambda>buf1.
     bind_err (bytearray_set buf1 2 (push_bit 4 (chunk_y mod 16) OR local_y)) (\<lambda>buf2.
     bind_err (self ''shape'') (\<lambda>sh.
     bind_err (bytearray_set buf2 3 (sh AND 255)) (\<lambda>buf3.
     bind_err (self ''shape'') (\<lambda>sh'.
     bind_err (self ''frame'') (\<lambda>fr.
     bind_err (bytearray_set buf3 4 ((drop_bit 8 sh' AND 3) OR push_bit 2 fr)) (\<lambda>buf4.
     bind_err (self ''lift'') (\<lambda>li.
     bind_err (bytearray_set buf4 5 (li AND 15)) (\<lambda>buf5.
     bind_err (self ''quality'') (\<lambda>qu.
     bind_err (bytearray_set buf5 6 (qu AND 255)) (\<lambda>buf6.
     bind_err (bytearray_set buf6 7 0) (\<lambda>buf7.
     bind_err (bytearray_set buf7 8 0) (\<lambda>buf8.
     bind_err (bytearray_set buf8 9 0) (\<lambda>buf9.
     Inr buf9)))))))))))))))))))"

text \<open>
  The integer attributes of the two dataclasses, among the names that \<open>to_ireg_bytes\<close>
  reads: an \<open>UltimaObject\<close> has all of them; an \<open>NPCProfile\<close> has \<open>shape\<close> only (its tile
  is the pair \<open>location\<close>, and it has no frame, lift or quality).
\<close>

definition UltimaObject_getattr :: "UltimaObject \<Rightarrow> string \<Rightarrow> py_error + int" where
  "UltimaObject_getattr obj a =
     (if a = ''shape'' then Inr (o_shape obj)
      else if a = ''frame'' then Inr (o_frame obj)
      else if a = ''x'' then Inr (o_x obj)
      else if a = ''y'' then Inr (o_y obj)
      else if a = ''lift'' then Inr (o_lift obj)
      else if a = ''quality'' then Inr (o_quality obj)
      else if a = ''flags'' then Inr (o_flags obj)
      else Inl (AttributeError ''UltimaObject'' a))"

definition NPCProfile_getattr :: "NPCProfile \<Rightarrow> string \<Rightarrow> py_error + int" where
  "NPCProfile_getattr p a =
     (if a = ''shape'' then Inr (p_shape p) else Inl (AttributeError ''NPCProfile'' a))"

text \<open>
  The methods each class body defines. The \<open>def to_ireg_bytes\<close> of the source stands in
  the body of \<open>class NPCProfile\<close> (lines 56 to 101); \<open>class UltimaObject\<close> (lines 44 to 53)
  defines none.
\<close>

definition UltimaObject_methods :: "string list" where
  "UltimaObject_methods = []"

definition NPCProfile_methods :: "string list" where
  "NPCProfile_methods = [''to_ireg_bytes'']"

text \<open>The call \<open>obj.to_ireg_bytes()\<close> on an instance of either class.\<close>

definition UltimaObject_to_ireg_bytes :: "UltimaObject \<Rightarrow> py_error + int list" where
  "UltimaObject_to_ireg_bytes obj =
     (if ''to_ireg_bytes'' \<in> set UltimaObject_methods
      then to_ireg_bytes (UltimaObject_getattr obj)
      else Inl (AttributeError ''UltimaObject'' ''to_ireg_bytes''))"

definition NPCProfile_to_ireg_bytes :: "NPCProfile \<Rightarrow> py_error + int list" where
  "NPCProfile_to_ireg_bytes p =
     (if ''to_ireg_bytes'' \<in> set NPCProfile_methods
      then to_ireg_bytes (NPCProfile_getattr p)
      else Inl (AttributeError ''NPCProfile'' ''to_ireg_bytes''))"

text \<open>
  The inner loop of \<open>export_ireg\<close>: the records of one chunk's objects, appended to the
  contents of the superchunk's file in visitation order.
\<close>

definition export_ireg_objects :: "UltimaObject list \<Rightarrow> int list \<Rightarrow> py_error + int list" where
  "export_ireg_objects objs file =
     for_each (\<lambda>obj f. bind_err (UltimaObject_to_ireg_bytes obj) (\<lambda>bs. Inr (f @ bs))) objs file"

section \<open>Shape tables and the terrain classifier (osm\_shape\_mapping.py)\<close>

definition TERRAIN_SHAPES :: "(string \<times> int list) list" where
  "TERRAIN_SHAPES =
    [(''grass'', [4, 31, 32, 33, 34, 35, 36, 37, 38, 39, 40, 41, 42, 43, 44, 45, 146, 147, 148]),
     (''sand'', [10, 111]),
     (''water'', [8]),
     (''swamp'', [22, 113, 114, 115, 116, 117]),
     (''dirt'', [23]),
     (''mud'', [149]),
     (''rocky_grass'', [46]),
     (''sandy_grass'', [28, 118, 119, 120, 121, 122, 123, 124, 125, 126, 127, 128, 129, 130,
        131, 132, 133]),
     (''muddy_bank'', [29, 85, 86, 87, 88, 89, 90, 91, 92, 93, 94, 95, 96] @
        [97, 98, 99, 100, 101, 102, 103, 104, 105, 106, 107, 108, 109]),
     (''grassy_mud'', [134, 135, 136, 137, 138, 139, 140, 141, 142, 143, 144, 145]),
     (''cave_floor'', [5, 49, 50, 51, 52, 53, 54, 55, 56, 57, 58, 59, 60, 61, 62, 63]),
     (''sidewalk'', [1]),
     (''cobblestone'', [24]),
     (''planking'', [17]),
     (''tile'', [18]),
     (''stone_floor'', [21]),
     (''carpet'', [0, 27, 47, 186, 187, 190, 269, 294, 413]),
     (''floor'', [189, 193, 367, 368, 369, 370, 441]),
     (''ford'', [14, 15, 84, 112]),
     (''rut'', [16, 25])]"

definition OSM_LANDUSE_TO_TERRAIN :: "(string \<times> string) list" where
  "OSM_LANDUSE_TO_TERRAIN =
    [(''forest'', ''grass''), (''grass'', ''grass''), (''meadow'', ''grass''),
     (''farmland'', ''grass''), (''orchard'', ''grass''), (''vineyard'', ''grass''),
     (''allotments'', ''dirt''), (''beach'', ''sand''), (''sand'', ''sand''),
     (''wetland'', ''swamp''), (''marsh'', ''swamp''), (''mud'', ''mud''),
     (''rock'', ''rocky_grass''), (''bare_rock'', ''rocky_grass''),
     (''residential'', ''grass''), (''commercial'', ''cobblestone''),
     (''industrial'', ''cobblestone''), (''retail'', ''cobblestone''),
     (''construction'', ''dirt''), (''brownfield'', ''dirt''), (''landfill'', ''dirt''),
     (''cemetery'', ''grass''), (''military'', ''grass''), (''quarry'', ''rocky_grass'')]"

definition OSM_NATURAL_TO_TERRAIN :: "(string \<times> string) list" where
  "OSM_NATURAL_TO_TERRAIN =
    [(''water'', ''water''), (''wetland'', ''swamp''), (''beach'', ''sand''),
     (''sand'', ''sand''), (''mud'', ''mud''), (''bare_rock'', ''rocky_grass''),
     (''scree'', ''rocky_grass''), (''grassland'', ''grass''), (''heath'', ''grass''),
     (''scrub'', ''grass''), (''wood'', ''grass'')]"

definition OSM_SURFACE_TO_TERRAIN :: "(string \<times> string) list" where
  "OSM_SURFACE_TO_TERRAIN =
    [(''asphalt'', ''cobblestone''), (''concrete'', ''stone_floor''),
     (''paving_stones'', ''cobblestone''), (''cobblestone'', ''cobblestone''),
     (''gravel'', ''dirt''), (''unpaved'', ''dirt''), (''ground'', ''dirt''),
     (''grass'', ''grass''), (''sand'', ''sand''), (''wood'', ''planking''),
     (''metal'', ''tile'')]"

definition OSM_HIGHWAY_TO_TERRAIN :: "(string \<times> string) list" where
  "OSM_HIGHWAY_TO_TERRAIN =
    [(''motorway'', ''cobblestone''), (''trunk'', ''cobblestone''),
     (''primary'', ''cobblestone''), (''secondary'', ''cobblestone''),
     (''tertiary'', ''cobblestone''), (''residential'', ''cobblestone''),
     (''service'', ''dirt''), (''track'', ''rut''), (''path'', ''dirt''),
     (''footway'', ''sidewalk''), (''pedestrian'', ''cobblestone''),
     (''cycleway'', ''dirt''), (''bridleway'', ''dirt''), (''steps'', ''stone_floor'')]"

definition OSM_WATERWAY_TO_TERRAIN :: "(string \<times> string) list" where
  "OSM_WATERWAY_TO_TERRAIN =
    [(''river'', ''water''), (''stream'', ''water''), (''canal'', ''water''),
     (''drain'', ''water''), (''ditch'', ''muddy_bank''), (''dam'', ''stone_floor'')]"

text \<open>
  \<open>d[k]\<close> for a key the table has (\<open>TERRAIN_SHAPES["grass"]\<close> and the like: the keys the
  source subscripts with are literals of the table), and \<open>d.get(k, default)\<close>.
\<close>

definition subscript :: "(string \<times> 'v list) list \<Rightarrow> string \<Rightarrow> 'v list" where
  "subscript d k = (case map_of d k of Some v \<Rightarrow> v | None \<Rightarrow> [])"

definition dict_get :: "(string \<times> 'v) list \<Rightarrow> string \<Rightarrow> 'v \<Rightarrow> 'v" where
  "dict_get d k dflt = (case map_of d k of Some v \<Rightarrow> v | None \<Rightarrow> dflt)"

text \<open>
  \<open>v = osm_tags.get(key)\<close> followed by the test \<open>v and v in table\<close>: the tag is present,
  its value is not the empty string, and the table has it.
\<close>

definition tag_mapped :: "(string \<rightharpoonup> string) \<Rightarrow> string \<Rightarrow> (string \<times> string) list \<Rightarrow> bool" where
  "tag_mapped osm_tags key table =
     (case osm_tags key of
        None \<Rightarrow> False
      | Some v \<Rightarrow> v \<noteq> [] \<and> map_of table v \<noteq> None)"

definition tag_lookup :: "(string \<rightharpoonup> string) \<Rightarrow> string \<Rightarrow> (string \<times> string) list \<Rightarrow> string" where
  "tag_lookup osm_tags key table =
     (case osm_tags key of
        None \<Rightarrow> []
      | Some v \<Rightarrow> (case map_of table v of None \<Rightarrow> [] | Some t \<Rightarrow> t))"

definition get_terrain_shape :: "(string \<rightharpoonup> string) \<Rightarrow> int list" where
  "get_terrain_shape osm_tags =
     (if tag_mapped osm_tags ''landuse'' OSM_LANDUSE_TO_TERRAIN then
        dict_get TERRAIN_SHAPES (tag_lookup osm_tags ''landuse'' OSM_LANDUSE_TO_TERRAIN)
          (subscript TERRAIN_SHAPES ''grass'')
      else if tag_mapped osm_tags ''natural'' OSM_NATURAL_TO_TERRAIN then
        dict_get TERRAIN_SHAPES (tag_lookup osm_tags ''natural'' OSM_NATURAL_TO_TERRAIN)
          (subscript TERRAIN_SHAPES ''grass'')
      else if tag_mapped osm_tags ''surface'' OSM_SURFACE_TO_TERRAIN then
        dict_get TERRAIN_SHAPES (tag_lookup osm_tags ''surface'' OSM_SURFACE_TO_TERRAIN)
          (subscript TERRAIN_SHAPES ''grass'')
      else if tag_mapped osm_tags ''highway'' OSM_HIGHWAY_TO_TERRAIN then
        dict_get TERRAIN_SHAPES (tag_lookup osm_tags ''highway'' OSM_HIGHWAY_TO_TERRAIN)
          (subscript TERRAIN_SHAPES ''cobblestone'')
      else if tag_mapped osm_tags ''waterway'' OSM_WATERWAY_TO_TERRAIN then
        dict_get TERRAIN_SHAPES (tag_lookup osm_tags ''waterway'' OSM_WATERWAY_TO_TERRAIN)
          (subscript TERRAIN_SHAPES ''water'')
      else subscript TERRAIN_SHAPES ''grass'')"


text \<open>
  The precedence of the classifier as the specification words it: the categories in their
  fixed order, the terrain type a category maps the tag set to (none when the tag is absent
  or its value is not in the category's table), and the first category that maps it.
\<close>

definition terrain_precedence :: "(string \<times> (string \<times> string) list) list" where
  "terrain_precedence =
     [(''landuse'', OSM_LANDUSE_TO_TERRAIN), (''natural'', OSM_NATURAL_TO_TERRAIN),
      (''surface'', OSM_SURFACE_TO_TERRAIN), (''highway'', OSM_HIGHWAY_TO_TERRAIN),
      (''waterway'', OSM_WATERWAY_TO_TERRAIN)]"

definition category_terrain ::
  "(string \<rightharpoonup> string) \<Rightarrow> string \<times> (string \<times> string) list \<Rightarrow> string option" where
  "category_terrain osm_tags c =
     (case osm_tags (fst c) of None \<Rightarrow> None | Some v \<Rightarrow> map_of (snd c) v)"

definition first_terrain :: "(string \<rightharpoonup> string) \<Rightarrow> string option" where
  "first_terrain osm_tags =
     (case List.map_filter (category_terrain osm_tags) terrain_precedence of
        [] \<Rightarrow> None
      | t # _ \<Rightarrow> Some t)"



section \<open>Object shapes (osm\_shape\_mapping.py, lines 108 to 338 and 418 to 467)\<close>

definition OBJECT_SHAPES :: "(string \<times> int list) list" where
  "OBJECT_SHAPES =
    [(''tree'', [181, 310, 332, 453]), (''evergreen'', [306]), (''dead_tree'', [185, 325]),
     (''fallen_tree'', [309, 315]), (''stump'', [313]), (''tropical_plant'', [326]),
     (''cypress_tree'', [327]), (''baobab_tree'', [328]), (''brambles'', [320]),
     (''reeds'', [321]), (''cattails'', [323]), (''weeds'', [314]), (''greer_plant'', [160]),
     (''small_rock'', [203]), (''rock'', [331, 341]), (''boulder'', [342, 343]),
     (''large_rock'', [316]), (''rock_outcropping'', [163]),
     (''mountain'', [180, 182, 183, 195, 196, 197, 324, 395, 396]), (''well'', [470]),
     (''spring'', [7, 13]), (''bubbles'', [334, 335]), (''waves'', [384]),
     (''wall'', [151, 152, 205, 206, 218, 219, 220, 221, 253, 266, 273, 308, 344, 345, 346, 348,
        349, 350, 351, 355, 357, 358, 359, 362, 365, 366, 371, 374, 393, 425]),
     (''door'', [270, 376, 432, 433]), (''window'', [438]), (''chimney'', [439]),
     (''fireplace'', [442]), (''roof_slate'', [164, 165, 166, 167, 169]),
     (''roof_wood'', [170, 171, 172, 173, 174, 175, 176]), (''roof_tile'', [156]),
     (''broken_wall'', [216, 217, 255, 347, 356]), (''broken_door'', [208, 211]),
     (''broken_roof'', [223]), (''stairs'', [385, 386, 387, 426, 427, 428, 429, 430]),
     (''fortress'', [191, 192, 260, 263, 352]), (''fortress_gateway'', [257]),
     (''fence'', [378, 420, 421, 422]), (''iron_bars'', [264]), (''portcullis'', [271, 272]),
     (''glass_wall'', [373]), (''sign'', [360, 361, 379]), (''banner'', [286]),
     (''flag_blue'', [222]), (''flag_red'', [232]), (''flag_green'', [248]),
     (''table'', [333]), (''desk'', [283, 407]), (''drawers'', [416]), (''nightstand'', [406]),
     (''seat'', [292]), (''bed'', [312, 363]), (''rug'', [188, 483]), (''tapestry'', [293]),
     (''painting'', [282]), (''mirror'', [268]), (''trophy'', [311, 409]), (''statue'', [486]),
     (''grandfather_clock'', [252]), (''sundial'', [284]), (''sconce'', [481]),
     (''lit_sconce'', [435]), (''light_source'', [336]), (''lit_light_source'', [338]),
     (''beam_of_light'', [168]), (''blacksmith'', [304]), (''bellows'', [431]),
     (''loom'', [261]), (''alchemist_device'', [177]), (''laboratory_burner'', [307]),
     (''mining_machine'', [410]), (''conveyer_belt'', [411]), (''crops'', [423]),
     (''chicken_coop'', [210]), (''pumpkin'', [302]), (''honeycomb'', [404]),
     (''cart'', [301]), (''wagon_floor'', [436]), (''wagon_wheel'', [437]),
     (''bridge'', [212, 213, 214, 215]), (''gangplank'', [150]), (''ferry'', [402]),
     (''ship_hold'', [405]), (''mast'', [199]), (''sails'', [251]), (''cask'', [434]),
     (''keg'', [258]), (''chest'', [76]), (''garbage'', [415]), (''debris'', [201, 202]),
     (''scorch_mark'', [204, 207]), (''dust'', [209, 224]), (''trap'', [200]),
     (''moongate'', [157]), (''platform'', [233, 364]), (''stand'', [158])]"

definition OSM_AMENITY_TO_SHAPE :: "(string \<times> string) list" where
  "OSM_AMENITY_TO_SHAPE =
    [(''fountain'', ''well''), (''bench'', ''seat''), (''waste_basket'', ''garbage''),
     (''post_box'', ''chest''), (''clock'', ''grandfather_clock''),
     (''drinking_water'', ''well''), (''shelter'', ''roof_wood''),
     (''marketplace'', ''stand''), (''place_of_worship'', ''statue'')]"

definition OSM_BUILDING_TO_SHAPES :: "(string \<times> (string \<times> string) list) list" where
  "OSM_BUILDING_TO_SHAPES =
    [(''house'', [(''walls'', ''wall''), (''roof'', ''roof_slate''), (''door'', ''door''), (''window'', ''window'')]),
     (''residential'', [(''walls'', ''wall''), (''roof'', ''roof_slate''), (''door'', ''door''), (''window'', ''window'')]),
     (''apartments'', [(''walls'', ''wall''), (''roof'', ''roof_tile''), (''door'', ''door''), (''window'', ''window'')]),
     (''detached'', [(''walls'', ''wall''), (''roof'', ''roof_wood''), (''door'', ''door''), (''window'', ''window'')]),
     (''terrace'', [(''walls'', ''wall''), (''roof'', ''roof_slate''), (''door'', ''door''), (''window'', ''window'')]),
     (''commercial'', [(''walls'', ''wall''), (''roof'', ''roof_tile''), (''door'', ''door''), (''window'', ''window'')]),
     (''retail'', [(''walls'', ''wall''), (''roof'', ''roof_tile''), (''door'', ''door''), (''window'', ''window'')]),
     (''shop'', [(''walls'', ''wall''), (''roof'', ''roof_wood''), (''door'', ''door''), (''window'', ''window'')]),
     (''kiosk'', [(''walls'', ''wall''), (''roof'', ''roof_wood''), (''door'', ''door'')]),
     (''industrial'', [(''walls'', ''wall''), (''roof'', ''roof_tile''), (''door'', ''door'')]),
     (''warehouse'', [(''walls'', ''wall''), (''roof'', ''roof_wood''), (''door'', ''door'')]),
     (''barn'', [(''walls'', ''wall''), (''roof'', ''roof_wood''), (''door'', ''door'')]),
     (''farm'', [(''walls'', ''wall''), (''roof'', ''roof_wood''), (''door'', ''door'')]),
     (''church'', [(''walls'', ''wall''), (''roof'', ''roof_slate''), (''door'', ''door''), (''window'', ''window'')]),
     (''chapel'', [(''walls'', ''wall''), (''roof'', ''roof_slate''), (''door'', ''door''), (''window'', ''window'')]),
     (''cathedral'', [(''walls'', ''fortress''), (''roof'', ''roof_slate''), (''door'', ''door''), (''window'', ''window'')]),
     (''public'', [(''walls'', ''wall''), (''roof'', ''roof_tile''), (''door'', ''door''), (''window'', ''window'')]),
     (''civic'', [(''walls'', ''wall''), (''roof'', ''roof_tile''), (''door'', ''door''), (''window'', ''window'')]),
     (''government'', [(''walls'', ''fortress''), (''roof'', ''roof_slate''), (''door'', ''door''), (''window'', ''window'')]),
     (''hospital'', [(''walls'', ''wall''), (''roof'', ''roof_tile''), (''door'', ''door''), (''window'', ''window'')]),
     (''school'', [(''walls'', ''wall''), (''roof'', ''roof_slate''), (''door'', ''door''), (''window'', ''window'')]),
     (''university'', [(''walls'', ''wall''), (''roof'', ''roof_slate''), (''door'', ''door''), (''window'', ''window'')]),
     (''castle'', [(''walls'', ''fortress''), (''roof'', ''roof_slate''), (''door'', ''portcullis'')]),
     (''fort'', [(''walls'', ''fortress''), (''roof'', ''roof_slate''), (''door'', ''portcullis'')]),
     (''tower'', [(''walls'', ''fortress''), (''roof'', ''roof_slate'')]),
     (''ruins'', [(''walls'', ''broken_wall''), (''roof'', ''broken_roof'')]),
     (''bridge'', [(''floor'', ''bridge'')])]"

definition OSM_NATURAL_TO_SHAPE :: "(string \<times> string) list" where
  "OSM_NATURAL_TO_SHAPE =
    [(''tree'', ''tree''), (''wood'', ''tree''), (''scrub'', ''brambles''),
     (''wetland'', ''reeds''), (''water'', ''waves''), (''spring'', ''spring''),
     (''rock'', ''rock''), (''stone'', ''rock''), (''peak'', ''mountain''),
     (''cliff'', ''rock_outcropping''), (''cave_entrance'', ''cave_floor'')]"

definition OSM_BARRIER_TO_SHAPE :: "(string \<times> string) list" where
  "OSM_BARRIER_TO_SHAPE =
    [(''fence'', ''fence''), (''wall'', ''wall''), (''hedge'', ''brambles''),
     (''gate'', ''door''), (''bollard'', ''small_rock''), (''retaining_wall'', ''wall''),
     (''city_wall'', ''fortress'')]"

definition OSM_MAN_MADE_TO_SHAPE :: "(string \<times> string) list" where
  "OSM_MAN_MADE_TO_SHAPE =
    [(''bridge'', ''bridge''), (''pier'', ''planking''), (''tower'', ''fortress''),
     (''water_tower'', ''fortress''), (''chimney'', ''chimney''), (''windmill'', ''mast''),
     (''lighthouse'', ''fortress''), (''well'', ''well''), (''storage_tank'', ''keg'')]"

definition main_shapes :: "string \<Rightarrow> (string \<times> int list) list" where
  "main_shapes shape_name =
     (case map_of OBJECT_SHAPES shape_name of None \<Rightarrow> [] | Some v \<Rightarrow> [(''main'', v)])"

text \<open>
  The result dictionary (component to shape list) is the association list of its items in
  insertion order; the components of one building definition are distinct.
\<close>

definition get_object_shapes :: "(string \<rightharpoonup> string) \<Rightarrow> (string \<times> int list) list" where
  "get_object_shapes osm_tags =
     (case osm_tags ''building'' of
        Some (c # cs) \<Rightarrow>
          (let building = c # cs;
               building_kind =
                 (if map_of OSM_BUILDING_TO_SHAPES building \<noteq> None then building else ''house'');
               building_def =
                 dict_get OSM_BUILDING_TO_SHAPES building_kind
                   (subscript OSM_BUILDING_TO_SHAPES ''house'')
           in List.map_filter
                (\<lambda>(component, shape_name).
                   case map_of OBJECT_SHAPES shape_name of
                     None \<Rightarrow> None
                   | Some v \<Rightarrow> Some (component, v))
                building_def)
      | _ \<Rightarrow>
          if tag_mapped osm_tags ''amenity'' OSM_AMENITY_TO_SHAPE then
            main_shapes (tag_lookup osm_tags ''amenity'' OSM_AMENITY_TO_SHAPE)
          else if tag_mapped osm_tags ''natural'' OSM_NATURAL_TO_SHAPE then
            main_shapes (tag_lookup osm_tags ''natural'' OSM_NATURAL_TO_SHAPE)
          else if tag_mapped osm_tags ''barrier'' OSM_BARRIER_TO_SHAPE then
            main_shapes (tag_lookup osm_tags ''barrier'' OSM_BARRIER_TO_SHAPE)
          else if tag_mapped osm_tags ''man_made'' OSM_MAN_MADE_TO_SHAPE then
            main_shapes (tag_lookup osm_tags ''man_made'' OSM_MAN_MADE_TO_SHAPE)
          else [])"

section \<open>Coordinate transformation (osm\_shape\_mapping.py, lines 504 to 556)\<close>

text \<open>
  Longitudes and latitudes are Python floats. They are modelled as real numbers, with
  exact arithmetic in place of the rounding of IEEE doubles; \<open>int(v)\<close> truncates towards
  zero.
\<close>

definition py_int :: "real \<Rightarrow> int" where
  "py_int v = (if 0 \<le> v then \<lfloor>v\<rfloor> else \<lceil>v\<rceil>)"

record CoordinateTransformer =
  min_lon :: real
  min_lat :: real
  max_lon :: real
  max_lat :: real
  lon_range :: real
  lat_range :: real
  tiles_x :: int
  tiles_y :: int

definition CoordinateTransformer_new ::
  "real \<times> real \<times> real \<times> real \<Rightarrow> int \<times> int \<Rightarrow> CoordinateTransformer" where
  "CoordinateTransformer_new bbox ultima_size =
     (case bbox of (mn_lon, mn_lat, mx_lon, mx_lat) \<Rightarrow>
        \<lparr>min_lon = mn_lon, min_lat = mn_lat, max_lon = mx_lon, max_lat = mx_lat,
         lon_range = mx_lon - mn_lon, lat_range = mx_lat - mn_lat,
         tiles_x = fst ultima_size * 16, tiles_y = snd ultima_size * 16\<rparr>)"

definition osm_to_ultima :: "CoordinateTransformer \<Rightarrow> real \<Rightarrow> real \<Rightarrow> int \<times> int" where
  "osm_to_ultima tr lon lat =
     (let norm_x = (if lon_range tr > 0 then (lon - min_lon tr) / lon_range tr else 0.5);
          norm_y = (if lat_range tr > 0 then (lat - min_lat tr) / lat_range tr else 0.5);
          norm_y = 1.0 - norm_y;
          tile_x = py_int (norm_x * of_int (tiles_x tr));
          tile_y = py_int (norm_y * of_int (tiles_y tr));
          tile_x = max 0 (min (tiles_x tr - 1) tile_x);
          tile_y = max 0 (min (tiles_y tr - 1) tile_y)
      in (tile_x, tile_y))"

definition osm_to_chunk :: "CoordinateTransformer \<Rightarrow> real \<Rightarrow> real \<Rightarrow> int \<times> int \<times> int \<times> int" where
  "osm_to_chunk tr lon lat =
     (case osm_to_ultima tr lon lat of (tile_x, tile_y) \<Rightarrow>
        (tile_x div 16, tile_y div 16, tile_x mod 16, tile_y mod 16))"

section \<open>The random module\<close>

text \<open>
  The source draws every random value from the functions of Python's \<open>random\<close> module
  (\<open>random.choice\<close>, \<open>random.randint\<close>, \<open>random.random\<close>, \<open>random.uniform\<close>), which share
  the one hidden generator of the process; \<open>main\<close> seeds it with \<open>random.seed\<close>. The
  generator is not part of the repository: its state is modelled as the infinite stream
  of the raw draws still to come, so that a statement about every stream covers every
  outcome the generator can produce. The state is threaded through every operation that
  draws.
  \<^item> \<open>random.choice(xs)\<close> raises IndexError on an empty sequence, and returns an element
    of \<open>xs\<close> otherwise;
  \<^item> \<open>random.randint(a, b)\<close> raises ValueError when \<open>b < a\<close>, and returns an integer of
    \<open>a..b\<close> otherwise;
  \<^item> \<open>random.random()\<close> returns a multiple of \<open>2^-53\<close> in \<open>[0, 1)\<close>;
  \<^item> \<open>random.uniform(a, b)\<close> is \<open>a + (b - a) * random()\<close>.
\<close>

type_synonym rng = "nat stream"

definition random_choice :: "'a list \<Rightarrow> rng \<Rightarrow> py_error + ('a \<times> rng)" where
  "random_choice xs g =
     (if xs = [] then Inl IndexError else Inr (xs ! (shd g mod length xs), stl g))"

definition random_randint :: "int \<Rightarrow> int \<Rightarrow> rng \<Rightarrow> py_error + (int \<times> rng)" where
  "random_randint a b g =
     (if b < a then Inl ValueError
      else Inr (a + int (shd g mod nat (b - a + 1)), stl g))"

definition random_random :: "rng \<Rightarrow> real \<times> rng" where
  "random_random g = (real (shd g mod 2 ^ 53) / 2 ^ 53, stl g)"

definition random_uniform :: "real \<Rightarrow> real \<Rightarrow> rng \<Rightarrow> real \<times> rng" where
  "random_uniform a b g = (case random_random g of (r, g') \<Rightarrow> (a + (b - a) * r, g'))"

section \<open>The generation session (class MapGenerator)\<close>

text \<open>
  The fields of a \<open>MapGenerator\<close> that the modelled operations read or write. The session
  holds no random generator.
\<close>

record MapGenerator =
  map_size :: "int \<times> int"
  transformer :: CoordinateTransformer
  ultima_map :: UltimaMap
  road_tiles :: "(int \<times> int) \<rightharpoonup> string"
  npc_profiles :: "NPCProfile list"
  npc_counter :: nat
  buildings_processed :: nat
  roads_processed :: nat
  npcs_placed :: nat
  interiors_generated :: nat

definition MapGenerator_new ::
  "real \<times> real \<times> real \<times> real \<Rightarrow> int \<times> int \<Rightarrow> MapGenerator" where
  "MapGenerator_new bbox dims =
     \<lparr>map_size = dims,
      transformer = CoordinateTransformer_new bbox dims,
      ultima_map = UltimaMap_new (fst dims) (snd dims),
      road_tiles = Map.empty,
      npc_profiles = [],
      npc_counter = 0,
      buildings_processed = 0, roads_processed = 0, npcs_placed = 0,
      interiors_generated = 0\<rparr>"

text \<open>The state an operation of the session runs on: the session and the generator of the process.\<close>

type_synonym run = "MapGenerator \<times> rng"

text \<open>\<open>self.ultima_map.set_terrain(tx, ty, random.choice(shapes))\<close>\<close>

definition paint_tile :: "int list \<Rightarrow> int \<times> int \<Rightarrow> run \<Rightarrow> py_error + run" where
  "paint_tile shapes t s =
     (case s of (gen, g) \<Rightarrow>
        bind_err (random_choice shapes g) (\<lambda>(v, g').
          Inr (gen\<lparr>ultima_map := set_terrain (fst t) (snd t) v (ultima_map gen)\<rparr>, g')))"

text \<open>\<open>self.ultima_map.add_object(UltimaObject(shape=random.choice(shapes), x=x, y=y, lift=l))\<close>\<close>

definition place_object :: "int list \<Rightarrow> int \<Rightarrow> int \<times> int \<Rightarrow> run \<Rightarrow> py_error + run" where
  "place_object shapes l t s =
     (case s of (gen, g) \<Rightarrow>
        bind_err (random_choice shapes g) (\<lambda>(v, g').
          Inr (gen\<lparr>ultima_map := add_object (UltimaObject_new v (fst t) (snd t) l) (ultima_map gen)\<rparr>,
               g')))"

subsection \<open>Lines of terrain (lines 913 to 938)\<close>

text \<open>
  \<open>range(-width // 2, width // 2 + 1)\<close>. In Python the unary minus binds tighter than
  \<open>//\<close>: the lower bound is \<open>(-width) // 2\<close>.
\<close>

definition width_offsets :: "int \<Rightarrow> int list" where
  "width_offsets width = py_range ((- width) div 2) (width div 2 + 1)"

text \<open>
  The tiles the two inner loops paint around the centre \<open>(x, y)\<close>, in the order they are
  painted: the offsets \<open>wx\<close> and \<open>wy\<close> of the two ranges, and the test against the world
  bounds.
\<close>

definition square_tiles :: "int \<times> int \<Rightarrow> int \<Rightarrow> int \<times> int \<Rightarrow> (int \<times> int) list" where
  "square_tiles dims width c =
     [(fst c + wx, snd c + wy). wx \<leftarrow> width_offsets width, wy \<leftarrow> width_offsets width,
        0 \<le> fst c + wx \<and> fst c + wx < fst dims * 16 \<and>
        0 \<le> snd c + wy \<and> snd c + wy < snd dims * 16]"

text \<open>\<open>t = i / dist\<close> and \<open>int(a + t * (b - a))\<close>, in exact arithmetic.\<close>

definition lerp :: "int \<Rightarrow> int \<Rightarrow> int \<Rightarrow> int \<Rightarrow> int" where
  "lerp a b i dst = py_int (of_int a + (of_int i / of_int dst) * of_int (b - a))"

definition draw_line_terrain ::
  "real \<times> real \<Rightarrow> real \<times> real \<Rightarrow> int list \<Rightarrow> int \<Rightarrow> run \<Rightarrow> py_error + run" where
  "draw_line_terrain start_pt end_pt shapes width s =
     (let gen = fst s;
          start_tile = osm_to_ultima (transformer gen) (fst start_pt) (snd start_pt);
          end_tile = osm_to_ultima (transformer gen) (fst end_pt) (snd end_pt);
          dx = \<bar>fst end_tile - fst start_tile\<bar>;
          dy = \<bar>snd end_tile - snd start_tile\<bar>;
          dst = max dx dy
      in if dst = 0 then paint_tile shapes start_tile s
         else for_each
           (\<lambda>i. for_each (paint_tile shapes)
              (square_tiles (map_size gen) width
                 (lerp (fst start_tile) (fst end_tile) i dst,
                  lerp (snd start_tile) (snd end_tile) i dst)))
           (py_range 0 (dst + 1)) s)"


subsection \<open>What the given sources do not define\<close>

text \<open>
  \<open>osm2ultima.py\<close> imports \<open>get_furniture_for_room\<close>, \<open>get_furniture_shapes\<close> and
  \<open>get_npc_with_dialogue\<close> from \<open>osm_shape_mapping\<close>, whose given source does not define
  them: they are parameters of the model, as is Python's built-in \<open>hash\<close> on strings
  (salted per process). The dictionary that \<open>get_npc_with_dialogue\<close> returns is read by
  \<open>.get("shapes")\<close>, \<open>.get("dialogues", [])\<close> and \<open>.get("schedule", "daytime")\<close>; a key it
  lacks is \<open>None\<close> here (the empty list for the shapes, which the source tests for
  truth).
\<close>

record npc_data =
  nd_shapes :: "int list"
  nd_dialogues :: "string list option"
  nd_schedule :: "string option"

record externals =
  get_furniture_for_room :: "string \<Rightarrow> string \<Rightarrow> string list"
  get_furniture_shapes :: "string \<Rightarrow> int list"
  get_npc_with_dialogue :: "string \<Rightarrow> npc_data option"
  str_hash :: "string \<Rightarrow> int"

subsection \<open>NPC profiles and relationships (lines 761 to 847)\<close>

definition npc_mapping :: "(string \<times> string list) list" where
  "npc_mapping =
    [(''house'', [''townsman'', ''townswoman'']),
     (''residential'', [''townsman'', ''townswoman'', ''child'']),
     (''shop'', [''shopkeeper'']), (''retail'', [''shopkeeper'']),
     (''commercial'', [''shopkeeper'', ''townsman'']), (''church'', [''sage'']),
     (''castle'', [''guard'', ''noble_male'', ''noble_female'']),
     (''fort'', [''guard'', ''fighter'']), (''government'', [''guard'', ''noble_male'']),
     (''hospital'', [''sage'']), (''school'', [''sage'']),
     (''tavern'', [''entertainer'', ''townsman'', ''townswoman'']), (''farm'', [''farmer'']),
     (''barn'', [''farmer'']), (''industrial'', [''blacksmith'', ''townsman'']),
     (''warehouse'', [''townsman''])]"

definition personality_profiles ::
  "(string \<times> real \<times> real \<times> real \<times> real \<times> real) list" where
  "personality_profiles =
    [(''townsman'', (0.4, 0.5, 0.5, 0.6, 0.4)), (''townswoman'', (0.5, 0.6, 0.5, 0.7, 0.4)),
     (''child'', (0.8, 0.3, 0.8, 0.6, 0.5)), (''guard'', (0.3, 0.8, 0.4, 0.4, 0.3)),
     (''shopkeeper'', (0.5, 0.7, 0.7, 0.6, 0.3)), (''blacksmith'', (0.4, 0.8, 0.4, 0.5, 0.3)),
     (''farmer'', (0.3, 0.7, 0.4, 0.6, 0.4)), (''mage'', (0.9, 0.6, 0.3, 0.4, 0.5)),
     (''sage'', (0.8, 0.7, 0.3, 0.6, 0.3)), (''noble_male'', (0.5, 0.6, 0.6, 0.3, 0.4)),
     (''noble_female'', (0.6, 0.6, 0.5, 0.4, 0.5)),
     (''entertainer'', (0.8, 0.4, 0.9, 0.7, 0.5)), (''beggar'', (0.4, 0.3, 0.4, 0.5, 0.7)),
     (''fighter'', (0.4, 0.6, 0.5, 0.3, 0.4)), (''ranger'', (0.6, 0.6, 0.3, 0.5, 0.3))]"

definition knowledge_mapping :: "(string \<times> string list) list" where
  "knowledge_mapping =
    [(''townsman'', [''local_gossip'', ''town_history'']),
     (''townswoman'', [''local_gossip'', ''town_history'', ''cooking'']),
     (''child'', [''games'', ''local_secrets'']),
     (''guard'', [''combat'', ''law'', ''town_security'']),
     (''shopkeeper'', [''commerce'', ''goods'', ''local_economy'']),
     (''blacksmith'', [''smithing'', ''weapons'', ''armor'', ''metallurgy'']),
     (''farmer'', [''agriculture'', ''weather'', ''animals'']),
     (''mage'', [''magic'', ''arcana'', ''history'', ''alchemy'']),
     (''sage'', [''history'', ''lore'', ''religion'', ''medicine'']),
     (''noble_male'', [''politics'', ''heraldry'', ''etiquette'']),
     (''noble_female'', [''politics'', ''heraldry'', ''etiquette'', ''fashion'']),
     (''entertainer'', [''music'', ''stories'', ''gossip'', ''performance'']),
     (''fighter'', [''combat'', ''weapons'', ''tactics'']),
     (''ranger'', [''nature'', ''tracking'', ''survival'', ''beasts''])]"

definition first_names_male :: "string list" where
  "first_names_male =
    [''Gareth'', ''Aldric'', ''Cedric'', ''Edmund'', ''Roland'', ''Geoffrey'', ''Wilfred'',
     ''Oswald'', ''Reginald'', ''Bernard'']"

definition first_names_female :: "string list" where
  "first_names_female =
    [''Elara'', ''Beatrice'', ''Gwyneth'', ''Isolde'', ''Rowena'', ''Millicent'', ''Cordelia'',
     ''Elowen'', ''Rosalind'', ''Lysandra'']"

text \<open>\<open>f"npc_{n:04d}"\<close>: the decimal digits of the counter, padded with zeros to four.\<close>

definition digit_char :: "nat \<Rightarrow> char" where
  "digit_char d = char_of (48 + d)"

fun decimal :: "nat \<Rightarrow> string" where
  "decimal n = (if n < 10 then [digit_char n] else decimal (n div 10) @ [digit_char (n mod 10)])"

definition zero_pad :: "nat \<Rightarrow> string \<Rightarrow> string" where
  "zero_pad w ds = replicate (w - length ds) (CHR ''0'') @ ds"

definition npc_id_of :: "nat \<Rightarrow> string" where
  "npc_id_of n = ''npc_'' @ zero_pad 4 (decimal n)"

text \<open>\<open>max(0.0, min(1.0, base + random.uniform(-0.15, 0.15)))\<close>\<close>

definition vary :: "real \<Rightarrow> rng \<Rightarrow> real \<times> rng" where
  "vary base g =
     (case random_uniform (- 0.15) 0.15 g of (u, g') \<Rightarrow> (max 0 (min 1 (base + u)), g'))"

definition create_npc_profile ::
  "string \<Rightarrow> string \<Rightarrow> int \<Rightarrow> int \<Rightarrow> int \<Rightarrow> npc_data \<Rightarrow> run \<Rightarrow> py_error + (NPCProfile \<times> run)" where
  "create_npc_profile npc_type building_type x y shape nd s =
     (case s of (gen0, g0) \<Rightarrow>
        let gen = gen0\<lparr>npc_counter := npc_counter gen0 + 1\<rparr>;
            pid = npc_id_of (npc_counter gen);
            is_female = npc_type \<in> set [''townswoman'', ''noble_female''];
            names = (if is_female then first_names_female else first_names_male)
        in bind_err (random_choice names g0) (\<lambda>(name, g1).
           case dict_get personality_profiles npc_type (0.5, 0.5, 0.5, 0.5, 0.5) of
             (base_o, base_c, base_e, base_a, base_n) \<Rightarrow>
           case vary base_o g1 of (tr_o, g2) \<Rightarrow>
           case vary base_c g2 of (tr_c, g3) \<Rightarrow>
           case vary base_e g3 of (tr_e, g4) \<Rightarrow>
           case vary base_a g4 of (tr_a, g5) \<Rightarrow>
           case vary base_n g5 of (tr_n, g6) \<Rightarrow>
             Inr (\<lparr>p_id = pid, p_name = name, p_profession = npc_type,
                   p_building_type = building_type, p_location = (x, y), p_shape = shape,
                   p_openness = tr_o, p_conscientiousness = tr_c, p_extraversion = tr_e,
                   p_agreeableness = tr_a, p_neuroticism = tr_n,
                   p_dialogues = (case nd_dialogues nd of None \<Rightarrow> [] | Some d \<Rightarrow> d),
                   p_schedule = (case nd_schedule nd of None \<Rightarrow> ''daytime'' | Some sc \<Rightarrow> sc),
                   p_knowledge_domains = dict_get knowledge_mapping npc_type [''general''],
                   p_relationships = Map.empty\<rparr>,
                  (gen, g6))))"

text \<open>
  \<open>_create_building_relationships\<close>. The inner loop, for one profile: every id of the
  list other than the profile's own gets a fresh \<open>random.uniform(0.3, 0.7)\<close>.
\<close>

primrec relate_to :: "string \<Rightarrow> string list \<Rightarrow> (string \<rightharpoonup> real) \<Rightarrow> rng \<Rightarrow> (string \<rightharpoonup> real) \<times> rng" where
  "relate_to pid [] rel g = (rel, g)"
| "relate_to pid (other_id # rest) rel g =
     (if other_id \<noteq> pid
      then (case random_uniform 0.3 0.7 g of (v, g') \<Rightarrow> relate_to pid rest (rel(other_id \<mapsto> v)) g')
      else relate_to pid rest rel g)"

text \<open>The outer loop, over all the profiles of the session.\<close>

primrec relate_profiles :: "string list \<Rightarrow> NPCProfile list \<Rightarrow> rng \<Rightarrow> NPCProfile list \<times> rng" where
  "relate_profiles npc_ids [] g = ([], g)"
| "relate_profiles npc_ids (p # ps) g =
     (if p_id p \<in> set npc_ids
      then (case relate_to (p_id p) npc_ids (p_relationships p) g of (rel, g') \<Rightarrow>
              case relate_profiles npc_ids ps g' of (ps', g'') \<Rightarrow>
                (p\<lparr>p_relationships := rel\<rparr> # ps', g''))
      else (case relate_profiles npc_ids ps g of (ps', g') \<Rightarrow> (p # ps', g')))"

definition create_building_relationships :: "string list \<Rightarrow> run \<Rightarrow> run" where
  "create_building_relationships npc_ids s =
     (case s of (gen, g) \<Rightarrow>
        if length npc_ids < 2 then (gen, g)
        else (case relate_profiles npc_ids (npc_profiles gen) g of (ps, g') \<Rightarrow>
                (gen\<lparr>npc_profiles := ps\<rparr>, g')))"

subsection \<open>Building interiors (lines 530 to 674)\<close>

record Room =
  room_type :: string
  room_min_x :: int
  room_min_y :: int
  room_max_x :: int
  room_max_y :: int

definition mk_room :: "string \<Rightarrow> int \<Rightarrow> int \<Rightarrow> int \<Rightarrow> int \<Rightarrow> Room" where
  "mk_room ty mnx mny mxx mxy =
     \<lparr>room_type = ty, room_min_x = mnx, room_min_y = mny, room_max_x = mxx, room_max_y = mxy\<rparr>"

definition plan_rooms ::
  "string \<Rightarrow> int \<Rightarrow> int \<Rightarrow> int \<Rightarrow> int \<Rightarrow> run \<Rightarrow> py_error + (Room list \<times> run)" where
  "plan_rooms building_type min_x min_y max_x max_y s =
     (let width = max_x - min_x; height = max_y - min_y
      in if width < 6 \<or> height < 6 then Inr ([mk_room ''main'' min_x min_y max_x max_y], s)
         else if building_type \<in> set [''house'', ''residential''] then
           (let mid_y = min_y + height div 2;
                rooms = [mk_room ''living'' min_x min_y max_x mid_y,
                         mk_room ''bedroom'' min_x (mid_y + 1) max_x max_y];
                wall_shapes = dict_get OBJECT_SHAPES ''wall'' [151]
            in bind_err
                 (for_each
                    (\<lambda>x s'. if x \<noteq> (min_x + max_x) div 2
                       then place_object wall_shapes 0 (x, mid_y) s' else Inr s')
                    (py_range min_x (max_x + 1)) s)
                 (\<lambda>s'. Inr (rooms, s')))
         else if building_type \<in> set [''shop'', ''retail'', ''commercial''] then
           (let mid_y = min_y + (height * 2) div 3
            in Inr ([mk_room ''showroom'' min_x min_y max_x mid_y,
                     mk_room ''storage'' min_x (mid_y + 1) max_x max_y], s))
         else if building_type \<in> set [''tavern''] then
           (let mid_x = min_x + (width * 2) div 3; mid_y = min_y + height div 2
            in Inr ([mk_room ''main'' min_x min_y mid_x max_y,
                     mk_room ''kitchen'' (mid_x + 1) min_y max_x mid_y,
                     mk_room ''bedroom'' (mid_x + 1) (mid_y + 1) max_x max_y], s))
         else if building_type \<in> set [''castle'', ''government''] then
           (let mid_x = min_x + width div 2
            in Inr ([mk_room (if building_type = ''castle'' then ''throne'' else ''hall'')
                       min_x min_y mid_x max_y,
                     mk_room (if building_type = ''castle'' then ''hall'' else ''office'')
                       (mid_x + 1) min_y max_x max_y], s))
         else Inr ([mk_room ''main'' min_x min_y max_x max_y], s))"

text \<open>
  The \<open>while attempts < 10\<close> loop of \<open>_furnish_room\<close>, by the number of attempts that
  remain; \<open>placed\<close> is the set \<open>placed_positions\<close>.
\<close>

fun try_place_furniture ::
  "nat \<Rightarrow> Room \<Rightarrow> int list \<Rightarrow> (int \<times> int) set \<times> run \<Rightarrow> py_error + ((int \<times> int) set \<times> run)" where
  "try_place_furniture 0 room shapes st = Inr st"
| "try_place_furniture (Suc n) room shapes (placed, (gen, g)) =
     bind_err (random_randint (room_min_x room) (room_max_x room) g) (\<lambda>(x, g1).
     bind_err (random_randint (room_min_y room) (room_max_y room) g1) (\<lambda>(y, g2).
       if (x, y) \<notin> placed
       then bind_err (place_object shapes 0 (x, y) (gen, g2))
              (\<lambda>s'. Inr (insert (x, y) placed, s'))
       else try_place_furniture n room shapes (placed, (gen, g2))))"

definition furnish_room :: "externals \<Rightarrow> string \<Rightarrow> Room \<Rightarrow> run \<Rightarrow> py_error + run" where
  "furnish_room ext building_type room s =
     (let furniture_list = get_furniture_for_room ext building_type (room_type room)
      in if furniture_list = [] then Inr s
         else bind_err
           (for_each
              (\<lambda>furniture_name st.
                 let furniture_shapes = get_furniture_shapes ext furniture_name
                 in if furniture_shapes = [] then Inr st
                    else try_place_furniture 10 room furniture_shapes st)
              furniture_list ({}, s))
           (\<lambda>st. Inr (snd st)))"

definition generate_interior ::
  "externals \<Rightarrow> string \<Rightarrow> int \<Rightarrow> int \<Rightarrow> int \<Rightarrow> int \<Rightarrow> run \<Rightarrow> py_error + run" where
  "generate_interior ext building_type min_x min_y max_x max_y s =
     (let width = max_x - min_x; height = max_y - min_y
      in if width < 2 \<or> height < 2 then Inr s
         else bind_err (plan_rooms building_type min_x min_y max_x max_y s) (\<lambda>(rooms, s').
                for_each (furnish_room ext building_type) rooms s'))"

subsection \<open>Occupants (lines 676 to 759)\<close>

text \<open>
  The float literals \<open>0.4\<close> and \<open>0.6\<close> are the doubles nearest to them, and
  \<open>random.random()\<close> is a multiple of \<open>2^-53\<close>: the comparison of the two is exact.
\<close>

definition double_0_4 :: real where
  "double_0_4 = 3602879701896397 / 2 ^ 53"

definition double_0_6 :: real where
  "double_0_6 = 5404319552844595 / 2 ^ 53"

type_synonym npc_loop = "(int \<times> int) set \<times> string list \<times> run"

text \<open>
  The \<open>while attempts < 10\<close> loop of \<open>_place_building_npcs\<close>, by the number of attempts
  that remain. The loop state holds \<open>placed_positions\<close> and \<open>building_npcs\<close>.
\<close>

fun try_place_npc ::
  "externals \<Rightarrow> nat \<Rightarrow> string \<Rightarrow> string \<Rightarrow> npc_data \<Rightarrow> int \<Rightarrow> int \<Rightarrow> int \<Rightarrow> int \<Rightarrow>
     npc_loop \<Rightarrow> py_error + npc_loop" where
  "try_place_npc ext 0 npc_type building_type nd min_x min_y max_x max_y st = Inr st"
| "try_place_npc ext (Suc n) npc_type building_type nd min_x min_y max_x max_y
       (placed, ids, (gen, g)) =
     bind_err (random_randint min_x max_x g) (\<lambda>(x, g1).
     bind_err (random_randint min_y max_y g1) (\<lambda>(y, g2).
       if (x, y) \<notin> placed
       then
         bind_err (random_choice (nd_shapes nd) g2) (\<lambda>(shape, g3).
           let npc = (UltimaObject_new shape x y 0)\<lparr>o_quality := str_hash ext npc_type mod 256\<rparr>;
               gen1 = gen\<lparr>ultima_map := add_object npc (ultima_map gen)\<rparr>;
               gen2 = gen1\<lparr>npcs_placed := npcs_placed gen1 + 1\<rparr>
           in bind_err (create_npc_profile npc_type building_type x y shape nd (gen2, g3))
                (\<lambda>(profile, (gen3, g4)).
                   Inr (insert (x, y) placed, ids @ [p_id profile],
                        (gen3\<lparr>npc_profiles := npc_profiles gen3 @ [profile]\<rparr>, g4))))
       else try_place_npc ext n npc_type building_type nd min_x min_y max_x max_y
              (placed, ids, (gen, g2))))"

definition place_building_npcs ::
  "externals \<Rightarrow> string \<Rightarrow> int \<Rightarrow> int \<Rightarrow> int \<Rightarrow> int \<Rightarrow> run \<Rightarrow> py_error + run" where
  "place_building_npcs ext building_type min_x min_y max_x max_y s =
     (case s of (gen, g) \<Rightarrow>
        let npc_types = dict_get npc_mapping building_type [''townsman''];
            width = max_x - min_x;
            height = max_y - min_y;
            area = width * height;
            max_npcs = (if area < 16 then 1 else if area < 36 then 2 else 3);
            npc_chance = (if area < 16 then double_0_4 else if area < 36 then 0.5 else double_0_6)
        in case random_random g of (r, g1) \<Rightarrow>
           if r > npc_chance then Inr (gen, g1)
           else
             bind_err (random_randint 1 max_npcs g1) (\<lambda>(num_npcs, g2).
             bind_err
               (for_each
                  (\<lambda>_ st. case st of (placed, ids, (gen', g')) \<Rightarrow>
                     bind_err (random_choice npc_types g') (\<lambda>(npc_type, g'').
                       case get_npc_with_dialogue ext npc_type of
                         None \<Rightarrow> Inr (placed, ids, (gen', g''))
                       | Some nd \<Rightarrow>
                           if nd_shapes nd = [] then Inr (placed, ids, (gen', g''))
                           else try_place_npc ext 10 npc_type building_type nd
                                  min_x min_y max_x max_y (placed, ids, (gen', g''))))
                  (py_range 0 num_npcs) ({}, [], (gen, g2)))
               (\<lambda>(placed, ids, s'). Inr (create_building_relationships ids s'))))"

subsection \<open>Buildings (lines 460 to 528)\<close>

text \<open>\<open>min(...)\<close> and \<open>max(...)\<close> over a sequence that is not empty.\<close>

definition py_min :: "int list \<Rightarrow> int" where
  "py_min xs = fold min (tl xs) (hd xs)"

definition py_max :: "int list \<Rightarrow> int" where
  "py_max xs = fold max (tl xs) (hd xs)"

definition tiles_of :: "CoordinateTransformer \<Rightarrow> (real \<times> real) list \<Rightarrow> (int \<times> int) list" where
  "tiles_of tr coords = map (\<lambda>c. osm_to_ultima tr (fst c) (snd c)) coords"

text \<open>The tiles of the two nested loops over \<open>range(min_x, max_x + 1)\<close> and \<open>range(min_y, max_y + 1)\<close>.\<close>

definition box_tiles :: "int \<Rightarrow> int \<Rightarrow> int \<Rightarrow> int \<Rightarrow> (int \<times> int) list" where
  "box_tiles min_x min_y max_x max_y =
     [(x, y). x \<leftarrow> py_range min_x (max_x + 1), y \<leftarrow> py_range min_y (max_y + 1)]"

definition process_building ::
  "externals \<Rightarrow> (string \<rightharpoonup> string) \<Rightarrow> (real \<times> real) list \<Rightarrow> run \<Rightarrow> py_error + run" where
  "process_building ext tags coords s =
     (if length coords < 3 then Inr s
      else
        let ts = tiles_of (transformer (fst s)) coords;
            min_x = py_min (map fst ts);
            max_x = py_max (map fst ts);
            min_y = py_min (map snd ts);
            max_y = py_max (map snd ts);
            width = max 1 (max_x - min_x);
            height = max 1 (max_y - min_y);
            building_type = (case tags ''building'' of None \<Rightarrow> ''house'' | Some b \<Rightarrow> b);
            shapes = get_object_shapes tags;
            floor_shapes = dict_get TERRAIN_SHAPES ''floor'' [189];
            wall_shapes = dict_get shapes ''walls'' (dict_get OBJECT_SHAPES ''wall'' [151]);
            door_shapes = dict_get shapes ''door'' (dict_get OBJECT_SHAPES ''door'' [270]);
            door_x = (min_x + max_x) div 2;
            roof_shapes = dict_get shapes ''roof'' (dict_get OBJECT_SHAPES ''roof_slate'' [164])
        in
          bind_err (for_each (paint_tile floor_shapes) (box_tiles min_x min_y max_x max_y) s) (\<lambda>s1.
          bind_err (for_each
                      (\<lambda>x s'. bind_err (place_object wall_shapes 0 (x, min_y) s')
                                 (place_object wall_shapes 0 (x, max_y)))
                      (py_range min_x (max_x + 1)) s1) (\<lambda>s2.
          bind_err (for_each
                      (\<lambda>y s'. bind_err (place_object wall_shapes 0 (min_x, y) s')
                                 (place_object wall_shapes 0 (max_x, y)))
                      (py_range (min_y + 1) max_y) s2) (\<lambda>s3.
          bind_err (place_object door_shapes 0 (door_x, max_y) s3) (\<lambda>s4.
          bind_err (for_each (place_object roof_shapes 4) (box_tiles min_x min_y max_x max_y) s4) (\<lambda>s5.
          bind_err (if width \<ge> 4 \<and> height \<ge> 4
                    then bind_err (generate_interior ext building_type
                                     (min_x + 1) (min_y + 1) (max_x - 1) (max_y - 1) s5)
                           (\<lambda>(gen, g).
                              Inr (gen\<lparr>interiors_generated := interiors_generated gen + 1\<rparr>, g))
                    else Inr s5) (\<lambda>s6.
          bind_err (place_building_npcs ext building_type
                      (min_x + 1) (min_y + 1) (max_x - 1) (max_y - 1) s6) (\<lambda>(gen, g).
            Inr (gen\<lparr>buildings_processed := buildings_processed gen + 1\<rparr>, g)))))))))"

section \<open>Reading the effect of a run\<close>

text \<open>
  An instance of the parameters, for evaluation: no furniture and no NPC data are known, and
  every string hashes to 0.
\<close>

definition no_externals :: externals where
  "no_externals = \<lparr>get_furniture_for_room = (\<lambda>_ _. []), get_furniture_shapes = (\<lambda>_. []),
     get_npc_with_dialogue = (\<lambda>_. None), str_hash = (\<lambda>_. 0)\<rparr>"


text \<open>What one run of the session leaves as it was: everything but the map.\<close>

definition same_session :: "MapGenerator \<Rightarrow> MapGenerator \<Rightarrow> bool" where
  "same_session gen gen' \<longleftrightarrow> gen' = gen\<lparr>ultima_map := ultima_map gen'\<rparr>"

text \<open>The objects a tile has received between two states of the map.\<close>

definition added_objects ::
  "UltimaMap \<Rightarrow> UltimaMap \<Rightarrow> int \<times> int \<Rightarrow> UltimaObject list \<Rightarrow> bool" where
  "added_objects m m' t os \<longleftrightarrow> objects_at m' (fst t) (snd t) = objects_at m (fst t) (snd t) @ os"

text \<open>A tile of a well-formed map holds the given objects.\<close>

definition tile_kept :: "int \<Rightarrow> int \<Rightarrow> UltimaObject list \<Rightarrow> run \<Rightarrow> bool" where
  "tile_kept tx ty os s \<longleftrightarrow>
     wf_map (ultima_map (fst s)) \<and> objects_at (ultima_map (fst s)) tx ty = os"

text \<open>A room lies within a box of tiles.\<close>

definition room_within :: "int \<Rightarrow> int \<Rightarrow> int \<Rightarrow> int \<Rightarrow> Room \<Rightarrow> bool" where
  "room_within min_x min_y max_x max_y room \<longleftrightarrow>
     min_x \<le> room_min_x room \<and> room_max_x room \<le> max_x \<and>
     min_y \<le> room_min_y room \<and> room_max_y room \<le> max_y"

text \<open>
  The bounding box \<open>(min_x, min_y, max_x, max_y)\<close> of a building's transformed vertices, and
  the shape lists \<open>shapes.get(component, OBJECT_SHAPES.get(fallback, default))\<close> that
  \<open>_process_building\<close> draws its walls, door and roof from.
\<close>

definition footprint :: "CoordinateTransformer \<Rightarrow> (real \<times> real) list \<Rightarrow> int \<times> int \<times> int \<times> int" where
  "footprint tr coords =
     (let ts = tiles_of tr coords
      in (py_min (map fst ts), py_min (map snd ts), py_max (map fst ts), py_max (map snd ts)))"

definition building_shapes :: "(string \<rightharpoonup> string) \<Rightarrow> string \<Rightarrow> string \<Rightarrow> int list \<Rightarrow> int list" where
  "building_shapes tags component fallback dflt =
     dict_get (get_object_shapes tags) component (dict_get OBJECT_SHAPES fallback dflt)"

section \<open>Store lemmas\<close>

lemma wf_map_new: "wf_map (UltimaMap_new w h)"
  by (simp add: wf_map_def UltimaMap_new_def)

lemma chunk_16_new: "chunk_16 UltimaChunk_new"
  by (simp add: chunk_16_def UltimaChunk_new_def list_all_iff)

lemma get_chunk_wf:
  assumes "wf_map m" and "get_chunk cx cy m = (r, m')"
  shows "wf_map m'"
proof (cases "chunks m (cx, cy)")
  case None
  with assms(2) have m': "m' = m\<lparr>chunks := (chunks m)((cx, cy) \<mapsto> length (cells m)),
      cells := cells m @ [UltimaChunk_new]\<rparr>"
    by (auto simp: get_chunk_def)
  from assms(1) have b: "\<And>k q. chunks m k = Some q \<Longrightarrow> q < length (cells m)"
    and i: "\<And>k k' q. chunks m k = Some q \<Longrightarrow> chunks m k' = Some q \<Longrightarrow> k = k'"
    and c: "list_all chunk_16 (cells m)"
    by (auto simp: wf_map_def)
  show ?thesis
    unfolding wf_map_def m'
    using b i c chunk_16_new by (auto simp: less_Suc_eq split: if_splits)
next
  case (Some q)
  with assms show ?thesis by (simp add: get_chunk_def)
qed

lemma get_chunk_lookup:
  assumes "get_chunk cx cy m = (r, m')"
  shows "chunks m' (cx, cy) = Some r"
  using assms by (auto simp: get_chunk_def split: option.splits)

lemma get_chunk_in_store:
  assumes "wf_map m" and "get_chunk cx cy m = (r, m')"
  shows "r < length (cells m')"
  using get_chunk_wf [OF assms] get_chunk_lookup [OF assms(2)]
  by (auto simp: wf_map_def)

lemma update_chunk_chunks: "chunks (update_chunk r f m) = chunks m"
  by (simp add: update_chunk_def)

lemma update_chunk_read:
  "r < length (cells m) \<Longrightarrow> cells (update_chunk r f m) ! r = f (cells m ! r)"
  by (simp add: update_chunk_def)

lemma get_chunk_hit: "chunks m (cx, cy) = Some r \<Longrightarrow> get_chunk cx cy m = (r, m)"
  by (simp add: get_chunk_def)

lemma terrain_store_read:
  assumes "chunk_16 c" and "0 \<le> ly" and "ly < 16" and "0 \<le> lx" and "lx < 16"
  shows "terrain (terrain_store ly lx v c) ! nat ly ! nat lx = v"
proof -
  from assms have l: "nat ly < length (terrain c)"
    by (simp add: chunk_16_def)
  then have "terrain c ! nat ly \<in> set (terrain c)"
    by simp
  with assms(1) have "length (terrain c ! nat ly) = 16"
    by (simp add: chunk_16_def list_all_iff)
  with assms l show ?thesis
    by (simp add: terrain_store_def)
qed

lemma wf_map_chunk_16:
  "wf_map m \<Longrightarrow> r < length (cells m) \<Longrightarrow> chunk_16 (cells m ! r)"
  by (simp add: wf_map_def list_all_length)

lemma list_all_update: "list_all P xs \<Longrightarrow> P x \<Longrightarrow> list_all P (xs[i := x])"
  using set_update_subset_insert [of xs i x] by (auto simp: list_all_iff)

lemma wf_map_ref: "wf_map m \<Longrightarrow> chunks m k = Some r \<Longrightarrow> r < length (cells m)"
  unfolding wf_map_def by blast

lemma wf_map_inj: "wf_map m \<Longrightarrow> chunks m k = Some r \<Longrightarrow> chunks m k' = Some r \<Longrightarrow> k = k'"
  unfolding wf_map_def by blast

lemma update_chunk_wf:
  assumes "wf_map m" and "r < length (cells m)" and "chunk_16 (cells m ! r) \<Longrightarrow> chunk_16 (f (cells m ! r))"
  shows "wf_map (update_chunk r f m)"
proof -
  from assms(1) have c: "list_all chunk_16 (cells m)"
    by (simp add: wf_map_def)
  with assms(2) have "chunk_16 (cells m ! r)"
    by (simp add: list_all_length)
  with assms(3) have "chunk_16 (f (cells m ! r))"
    by simp
  with c have "list_all chunk_16 ((cells m)[r := f (cells m ! r)])"
    by (rule list_all_update)
  with assms(1) show ?thesis
    by (simp add: wf_map_def update_chunk_def)
qed

lemma chunk_16_terrain_store:
  assumes "chunk_16 c"
  shows "chunk_16 (terrain_store ly lx v c)"
proof -
  from assms have a: "list_all (\<lambda>row. length row = 16) (terrain c)" and l: "length (terrain c) = 16"
    by (simp_all add: chunk_16_def)
  show ?thesis
  proof (cases "nat ly < length (terrain c)")
    case True
    then have "terrain c ! nat ly \<in> set (terrain c)"
      by simp
    with a have "length ((terrain c ! nat ly)[nat lx := v]) = 16"
      by (simp add: list_all_iff)
    with a have "list_all (\<lambda>row. length row = 16)
        ((terrain c)[nat ly := (terrain c ! nat ly)[nat lx := v]])"
      by (rule list_all_update)
    with l show ?thesis
      by (simp add: chunk_16_def terrain_store_def)
  next
    case False
    then have "(terrain c)[nat ly := (terrain c ! nat ly)[nat lx := v]] = terrain c"
      by (intro list_update_beyond) simp
    with assms show ?thesis
      by (simp add: chunk_16_def terrain_store_def)
  qed
qed

lemma chunk_16_objects: "chunk_16 c \<Longrightarrow> chunk_16 (c\<lparr>objects := os\<rparr>)"
  by (simp add: chunk_16_def)

lemma set_terrain_wf: "wf_map m \<Longrightarrow> wf_map (set_terrain x y v m)"
proof -
  assume wf: "wf_map m"
  obtain r m' where g: "get_chunk (x div 16) (y div 16) m = (r, m')"
    by (cases "get_chunk (x div 16) (y div 16) m")
  have "wf_map (update_chunk r (terrain_store (y mod 16) (x mod 16) v) m')"
    by (rule update_chunk_wf [OF get_chunk_wf [OF wf g] get_chunk_in_store [OF wf g]])
      (rule chunk_16_terrain_store)
  then show ?thesis
    using g by (simp add: set_terrain_def)
qed

lemma add_object_wf: "wf_map m \<Longrightarrow> wf_map (add_object obj m)"
proof -
  assume wf: "wf_map m"
  obtain r m' where g: "get_chunk (o_x obj div 16) (o_y obj div 16) m = (r, m')"
    by (cases "get_chunk (o_x obj div 16) (o_y obj div 16) m")
  have "wf_map (update_chunk r (\<lambda>c. c\<lparr>objects := objects c @ [obj]\<rparr>) m')"
    by (rule update_chunk_wf [OF get_chunk_wf [OF wf g] get_chunk_in_store [OF wf g]])
      (rule chunk_16_objects)
  then show ?thesis
    using g by (simp add: add_object_def)
qed

text \<open>get_chunk leaves the objects of every chunk as they are (a new chunk has none).\<close>

lemma get_chunk_chunk_objects:
  assumes "wf_map m" and "get_chunk cx cy m = (r, m')"
  shows "chunk_objects m' k = chunk_objects m k"
proof (cases "chunks m (cx, cy)")
  case None
  with assms(2) have m': "m' = m\<lparr>chunks := (chunks m)((cx, cy) \<mapsto> length (cells m)),
      cells := cells m @ [UltimaChunk_new]\<rparr>"
    by (auto simp: get_chunk_def)
  have b: "\<And>k q. chunks m k = Some q \<Longrightarrow> q < length (cells m)"
    by (rule wf_map_ref [OF assms(1)])
  show ?thesis
    using None b
    by (auto simp: m' chunk_objects_def nth_append UltimaChunk_new_def split: option.splits)
next
  case (Some q)
  with assms show ?thesis by (simp add: get_chunk_def)
qed

lemma update_chunk_chunk_objects:
  assumes "wf_map m" and "chunks m k0 = Some r"
  shows "chunk_objects (update_chunk r f m) k =
           (if k = k0 then objects (f (cells m ! r)) else chunk_objects m k)"
proof -
  have r: "r < length (cells m)"
    by (rule wf_map_ref [OF assms])
  show ?thesis
  proof (cases "k = k0")
    case True
    with r assms(2) show ?thesis
      by (simp add: chunk_objects_def update_chunk_def)
  next
    case False
    show ?thesis
    proof (cases "chunks m k")
      case None
      with False show ?thesis
        by (simp add: chunk_objects_def update_chunk_def)
    next
      case (Some q)
      with False wf_map_inj [OF assms(1) Some, of k0] assms(2) have "q \<noteq> r"
        by auto
      with False Some show ?thesis
        by (simp add: chunk_objects_def update_chunk_def)
    qed
  qed
qed

lemma add_object_chunk_objects:
  assumes "wf_map m"
  shows "chunk_objects (add_object obj m) k =
           chunk_objects m k @ (if k = (o_x obj div 16, o_y obj div 16) then [obj] else [])"
proof -
  obtain r m' where g: "get_chunk (o_x obj div 16) (o_y obj div 16) m = (r, m')"
    by (cases "get_chunk (o_x obj div 16) (o_y obj div 16) m")
  have wf': "wf_map m'"
    by (rule get_chunk_wf [OF assms g])
  have l: "chunks m' (o_x obj div 16, o_y obj div 16) = Some r"
    by (rule get_chunk_lookup [OF g])
  have o: "objects (cells m' ! r) = chunk_objects m' (o_x obj div 16, o_y obj div 16)"
    using l by (simp add: chunk_objects_def)
  show ?thesis
    using g update_chunk_chunk_objects [OF wf' l, of "\<lambda>c. c\<lparr>objects := objects c @ [obj]\<rparr>" k]
      get_chunk_chunk_objects [OF assms g]
    by (simp add: add_object_def o)
qed

lemma set_terrain_chunk_objects:
  assumes "wf_map m"
  shows "chunk_objects (set_terrain x y v m) k = chunk_objects m k"
proof -
  obtain r m' where g: "get_chunk (x div 16) (y div 16) m = (r, m')"
    by (cases "get_chunk (x div 16) (y div 16) m")
  have wf': "wf_map m'"
    by (rule get_chunk_wf [OF assms g])
  have l: "chunks m' (x div 16, y div 16) = Some r"
    by (rule get_chunk_lookup [OF g])
  have o: "objects (cells m' ! r) = chunk_objects m' (x div 16, y div 16)"
    using l by (simp add: chunk_objects_def)
  show ?thesis
    using g update_chunk_chunk_objects [OF wf' l, of "terrain_store (y mod 16) (x mod 16) v" k]
      get_chunk_chunk_objects [OF assms g]
    by (simp add: set_terrain_def o terrain_store_def)
qed

lemma add_object_objects_at:
  assumes "wf_map m"
  shows "objects_at (add_object obj m) tx ty =
           objects_at m tx ty @ (if o_x obj = tx \<and> o_y obj = ty then [obj] else [])"
  by (auto simp: objects_at_def add_object_chunk_objects [OF assms])

lemma set_terrain_objects_at:
  assumes "wf_map m"
  shows "objects_at (set_terrain x y v m) tx ty = objects_at m tx ty"
  by (simp add: objects_at_def set_terrain_chunk_objects [OF assms])

section \<open>C9: the chunk store\<close>

text \<open>
  C9. On a well-formed map, for every tile \<open>(x, y)\<close> and terrain id \<open>v\<close>:
  after \<open>set_terrain x y v\<close>, the chunk that \<open>get_chunk (x div 16) (y div 16)\<close> returns holds
  \<open>v\<close> at row \<open>y mod 16\<close>, column \<open>x mod 16\<close>. A second \<open>get_chunk\<close> with the same coordinates
  returns the same reference and leaves the map as it is; and a write through the
  reference a first call returned is what the chunk a later call returns holds.
\<close>

theorem set_terrain_get_chunk:
  assumes "wf_map m"
  shows "(let (r, m') = get_chunk (x div 16) (y div 16) (set_terrain x y v m)
          in terrain (cells m' ! r) ! nat (y mod 16) ! nat (x mod 16) = v) \<and>
         (let (r1, m1) = get_chunk cx cy m; (r2, m2) = get_chunk cx cy m1
          in r2 = r1 \<and> m2 = m1) \<and>
         (let (r1, m1) = get_chunk cx cy m; m2 = update_chunk r1 f m1;
              (r3, m3) = get_chunk cx cy m2
          in r3 = r1 \<and> m3 = m2 \<and> cells m3 ! r3 = f (cells m1 ! r1))"
proof (intro conjI)
  obtain r m' where g: "get_chunk (x div 16) (y div 16) m = (r, m')"
    by (cases "get_chunk (x div 16) (y div 16) m")
  let ?m2 = "update_chunk r (terrain_store (y mod 16) (x mod 16) v) m'"
  have st: "set_terrain x y v m = ?m2"
    using g by (simp add: set_terrain_def)
  have look: "chunks ?m2 (x div 16, y div 16) = Some r"
    using get_chunk_lookup [OF g] by (simp add: update_chunk_chunks)
  have r: "r < length (cells m')"
    by (rule get_chunk_in_store [OF assms g])
  have c16: "chunk_16 (cells m' ! r)"
    by (rule wf_map_chunk_16 [OF get_chunk_wf [OF assms g] r])
  have "terrain (cells ?m2 ! r) ! nat (y mod 16) ! nat (x mod 16) = v"
    using r c16 by (simp add: update_chunk_read terrain_store_read)
  then show "let (r, m') = get_chunk (x div 16) (y div 16) (set_terrain x y v m)
      in terrain (cells m' ! r) ! nat (y mod 16) ! nat (x mod 16) = v"
    by (simp add: st get_chunk_hit [OF look])
next
  obtain r1 m1 where g: "get_chunk cx cy m = (r1, m1)"
    by (cases "get_chunk cx cy m")
  show "let (r1, m1) = get_chunk cx cy m; (r2, m2) = get_chunk cx cy m1
      in r2 = r1 \<and> m2 = m1"
    by (simp add: g get_chunk_hit [OF get_chunk_lookup [OF g]])
next
  obtain r1 m1 where g: "get_chunk cx cy m = (r1, m1)"
    by (cases "get_chunk cx cy m")
  have look: "chunks (update_chunk r1 f m1) (cx, cy) = Some r1"
    using get_chunk_lookup [OF g] by (simp add: update_chunk_chunks)
  have r: "r1 < length (cells m1)"
    by (rule get_chunk_in_store [OF assms g])
  show "let (r1, m1) = get_chunk cx cy m; m2 = update_chunk r1 f m1;
        (r3, m3) = get_chunk cx cy m2
      in r3 = r1 \<and> m3 = m2 \<and> cells m3 ! r3 = f (cells m1 ! r1)"
    by (simp add: g get_chunk_hit [OF look] update_chunk_read [OF r])
qed

theorem set_terrain_get_chunk_witness:
  "wf_map (UltimaMap_new 16 16) \<and>
   (let (r, m') = get_chunk (17 div 16) (33 div 16) (set_terrain 17 33 10 (UltimaMap_new 16 16))
    in terrain (cells m' ! r) ! nat (33 mod 16) ! nat (17 mod 16) = 10) \<and>
   (let (r1, m1) = get_chunk 3 3 (UltimaMap_new 16 16); (r2, m2) = get_chunk 3 3 m1
    in r2 = r1 \<and> m2 = m1) \<and>
   (let (r1, m1) = get_chunk 3 3 (UltimaMap_new 16 16);
        m2 = update_chunk r1 (terrain_store 0 0 99) m1;
        (r3, m3) = get_chunk 3 3 m2
    in r3 = r1 \<and> m3 = m2 \<and> cells m3 ! r3 = terrain_store 0 0 99 (cells m1 ! r1))"
  using set_terrain_get_chunk [OF wf_map_new, of 17 33 10 16 16 3 3 "terrain_store 0 0 99"]
    wf_map_new [of 16 16]
  by simp

section \<open>Loops and random draws\<close>

lemma for_each_append:
  "for_each f (xs @ ys) s = bind_err (for_each f xs s) (for_each f ys)"
  by (induction xs arbitrary: s) (auto simp: bind_err_def split: sum.splits)

lemma bind_err_Inr_right: "bind_err r Inr = r"
  by (cases r) (simp_all add: bind_err_def)

lemma bind_err_Inl: "bind_err (Inl e) f = Inl e"
  by (simp add: bind_err_def)

lemma bind_err_eq_Inr:
  "bind_err r f = Inr v \<longleftrightarrow> (\<exists>u. r = Inr u \<and> f u = Inr v)"
  by (cases r) (simp_all add: bind_err_def)

lemma for_each_concat:
  "for_each (\<lambda>a. for_each f (pts a)) xs s = for_each f (concat (map pts xs)) s"
  by (induction xs arbitrary: s) (auto simp: for_each_append bind_err_def split: sum.splits)

lemma for_each_filter:
  "for_each (\<lambda>a s. if c a then f a s else Inr s) xs s = for_each f (filter c xs) s"
  by (induction xs arbitrary: s) (auto split: sum.splits)

lemma for_each_invariant:
  assumes "for_each f xs s = Inr s'" and "P s"
    and "\<And>a t t'. a \<in> set xs \<Longrightarrow> P t \<Longrightarrow> f a t = Inr t' \<Longrightarrow> P t'"
  shows "P s'"
  using assms
proof (induction xs arbitrary: s)
  case Nil
  then show ?case by simp
next
  case (Cons a xs)
  from Cons.prems(1) obtain t where t: "f a s = Inr t" and r: "for_each f xs t = Inr s'"
    by (auto split: sum.splits)
  have "P t"
    by (rule Cons.prems(3) [OF _ Cons.prems(2) t]) simp
  then show ?case
    by (rule Cons.IH [OF r]) (rule Cons.prems(3), auto)
qed

lemma random_choice_ok:
  assumes "xs \<noteq> []"
  shows "\<exists>v \<in> set xs. random_choice xs g = Inr (v, stl g)"
  using assms by (simp add: random_choice_def)

lemma random_choice_Inr:
  assumes "random_choice xs g = Inr (v, g')"
  shows "v \<in> set xs \<and> g' = stl g"
  using assms by (auto simp: random_choice_def split: if_splits)

lemma random_randint_Inr:
  assumes "random_randint a b g = Inr (v, g')"
  shows "a \<le> v \<and> v \<le> b \<and> g' = stl g"
proof -
  from assms have ab: "a \<le> b" and v: "v = a + int (shd g mod nat (b - a + 1))" and g: "g' = stl g"
    by (auto simp: random_randint_def split: if_splits)
  from ab have "shd g mod nat (b - a + 1) < nat (b - a + 1)"
    by simp
  with ab v g show ?thesis
    by linarith
qed

lemma place_object_Inr:
  assumes "place_object shapes l t (gen, g) = Inr (gen', g')"
  shows "\<exists>v \<in> set shapes. gen' = gen\<lparr>ultima_map :=
           add_object (UltimaObject_new v (fst t) (snd t) l) (ultima_map gen)\<rparr> \<and> g' = stl g"
  using assms
  by (auto simp: place_object_def bind_err_eq_Inr dest!: random_choice_Inr)

lemma place_object_ok:
  assumes "shapes \<noteq> []"
  shows "\<exists>gen' g'. place_object shapes l t (gen, g) = Inr (gen', g')"
  using random_choice_ok [OF assms, of g]
  by (auto simp: place_object_def bind_err_def)

lemma paint_tile_Inr:
  assumes "paint_tile shapes t (gen, g) = Inr (gen', g')"
  shows "\<exists>v \<in> set shapes. gen' = gen\<lparr>ultima_map :=
           set_terrain (fst t) (snd t) v (ultima_map gen)\<rparr> \<and> g' = stl g"
  using assms
  by (auto simp: paint_tile_def bind_err_eq_Inr dest!: random_choice_Inr)

lemma paint_tile_ok:
  assumes "shapes \<noteq> []"
  shows "\<exists>gen' g'. paint_tile shapes t (gen, g) = Inr (gen', g')"
  using random_choice_ok [OF assms, of g]
  by (auto simp: paint_tile_def bind_err_def)

lemma same_session_refl: "same_session gen gen"
  by (simp add: same_session_def)

lemma same_session_trans: "same_session a b \<Longrightarrow> same_session b c \<Longrightarrow> same_session a c"
  by (metis (no_types, lifting) MapGenerator.surjective MapGenerator.update_convs(3) same_session_def)

lemma for_each_place_object:
  assumes "shapes \<noteq> []" and "wf_map (ultima_map gen)"
  shows "\<exists>gen' g'. for_each (place_object shapes l) ts (gen, g) = Inr (gen', g') \<and>
           same_session gen gen' \<and> wf_map (ultima_map gen') \<and> g' = sdrop (length ts) g \<and>
           (\<forall>t. \<exists>os. added_objects (ultima_map gen) (ultima_map gen') t os \<and>
                  length os = count_list ts t \<and>
                  list_all (\<lambda>obj. o_lift obj = l \<and> o_shape obj \<in> set shapes) os)"
  using assms(2)
proof (induction ts arbitrary: gen g)
  case Nil
  then show ?case
    by (simp add: same_session_refl added_objects_def)
next
  case (Cons a ts)
  obtain gen1 g1 where p: "place_object shapes l a (gen, g) = Inr (gen1, g1)"
    using place_object_ok [OF assms(1)] by blast
  from place_object_Inr [OF p] obtain v where v: "v \<in> set shapes"
    and gen1: "gen1 = gen\<lparr>ultima_map :=
       add_object (UltimaObject_new v (fst a) (snd a) l) (ultima_map gen)\<rparr>"
    and g1: "g1 = stl g"
    by blast
  let ?obj = "UltimaObject_new v (fst a) (snd a) l"
  have wf1: "wf_map (ultima_map gen1)"
    using Cons.prems by (simp add: gen1 add_object_wf)
  have s1: "same_session gen gen1"
    by (simp add: gen1 same_session_def)
  from Cons.IH [OF wf1, of g1] obtain gen' g' where
    r: "for_each (place_object shapes l) ts (gen1, g1) = Inr (gen', g')"
    and s2: "same_session gen1 gen'" and wf': "wf_map (ultima_map gen')"
    and g': "g' = sdrop (length ts) g1"
    and e: "\<And>t. \<exists>os. added_objects (ultima_map gen1) (ultima_map gen') t os \<and>
                  length os = count_list ts t \<and>
                  list_all (\<lambda>obj. o_lift obj = l \<and> o_shape obj \<in> set shapes) os"
    by blast
  have "\<exists>os. added_objects (ultima_map gen) (ultima_map gen') t os \<and>
          length os = count_list (a # ts) t \<and>
          list_all (\<lambda>obj. o_lift obj = l \<and> o_shape obj \<in> set shapes) os" for t
  proof -
    from e [of t] obtain os where os: "added_objects (ultima_map gen1) (ultima_map gen') t os"
      "length os = count_list ts t"
      "list_all (\<lambda>obj. o_lift obj = l \<and> o_shape obj \<in> set shapes) os"
      by blast
    have 1: "objects_at (ultima_map gen1) (fst t) (snd t) =
        objects_at (ultima_map gen) (fst t) (snd t) @ (if a = t then [?obj] else [])"
      using add_object_objects_at [OF Cons.prems, of ?obj "fst t" "snd t"]
      by (auto simp: gen1 UltimaObject_new_def prod_eq_iff)
    show ?thesis
    proof (intro exI conjI)
      show "added_objects (ultima_map gen) (ultima_map gen') t ((if a = t then [?obj] else []) @ os)"
        using os(1) 1 by (simp add: added_objects_def)
      show "length ((if a = t then [?obj] else []) @ os) = count_list (a # ts) t"
        using os(2) by simp
      show "list_all (\<lambda>obj. o_lift obj = l \<and> o_shape obj \<in> set shapes)
          ((if a = t then [?obj] else []) @ os)"
        using os(3) v by (simp add: UltimaObject_new_def)
    qed
  qed
  with p r s1 s2 wf' g' g1 show ?case
    by (auto simp: same_session_trans [OF s1 s2])
qed

lemma for_each_paint_tile:
  assumes "shapes \<noteq> []" and "wf_map (ultima_map gen)"
  shows "\<exists>gen' g'. for_each (paint_tile shapes) ts (gen, g) = Inr (gen', g') \<and>
           same_session gen gen' \<and> wf_map (ultima_map gen') \<and> g' = sdrop (length ts) g \<and>
           (\<forall>t. added_objects (ultima_map gen) (ultima_map gen') t [])"
  using assms(2)
proof (induction ts arbitrary: gen g)
  case Nil
  then show ?case
    by (simp add: same_session_refl added_objects_def)
next
  case (Cons a ts)
  obtain gen1 g1 where p: "paint_tile shapes a (gen, g) = Inr (gen1, g1)"
    using paint_tile_ok [OF assms(1)] by blast
  from paint_tile_Inr [OF p] obtain v where
    gen1: "gen1 = gen\<lparr>ultima_map := set_terrain (fst a) (snd a) v (ultima_map gen)\<rparr>"
    and g1: "g1 = stl g"
    by blast
  have wf1: "wf_map (ultima_map gen1)"
    using Cons.prems by (simp add: gen1 set_terrain_wf)
  have s1: "same_session gen gen1"
    by (simp add: gen1 same_session_def)
  have o1: "objects_at (ultima_map gen1) tx ty = objects_at (ultima_map gen) tx ty" for tx ty
    using set_terrain_objects_at [OF Cons.prems] by (simp add: gen1)
  from Cons.IH [OF wf1, of g1] obtain gen' g' where
    r: "for_each (paint_tile shapes) ts (gen1, g1) = Inr (gen', g')"
    and s2: "same_session gen1 gen'" and wf': "wf_map (ultima_map gen')"
    and g': "g' = sdrop (length ts) g1"
    and e: "\<And>t. added_objects (ultima_map gen1) (ultima_map gen') t []"
    by blast
  from e o1 have "added_objects (ultima_map gen) (ultima_map gen') t []" for t
    by (simp add: added_objects_def)
  with p r wf' g' g1 show ?case
    by (auto simp: same_session_trans [OF s1 s2])
qed

section \<open>C1: the IREG record\<close>

lemma byte_pos:
  fixes a b :: int
  shows "0 \<le> push_bit 4 (a mod 16) OR (b mod 16)" and "push_bit 4 (a mod 16) OR (b mod 16) < 256"
proof -
  have a: "0 \<le> push_bit 4 (a mod 16)" "push_bit 4 (a mod 16) < 2 ^ 8"
    by (simp_all add: push_bit_eq_mult)
  have b: "0 \<le> b mod 16" "b mod 16 < 2 ^ 8"
    using pos_mod_bound [of 16 b] by simp_all
  show "0 \<le> push_bit 4 (a mod 16) OR (b mod 16)"
    using a(1) b(1) by simp
  show "push_bit 4 (a mod 16) OR (b mod 16) < 256"
    using OR_upper [OF a(1) a(2) b(2)] by simp
qed

lemma byte_and:
  fixes a :: int
  shows "0 \<le> a AND 255" and "a AND 255 < 256" and "0 \<le> a AND 15" and "a AND 15 < 256"
proof -
  show "0 \<le> a AND 255" "0 \<le> a AND 15"
    by simp_all
  have "a AND 255 \<le> 255"
    by (rule AND_upper2) simp
  then show "a AND 255 < 256"
    by simp
  have "a AND 15 \<le> 15"
    by (rule AND_upper2) simp
  then show "a AND 15 < 256"
    by simp
qed

lemma byte_shape_frame:
  fixes sh fr :: int
  assumes "0 \<le> fr" and "fr < 64"
  shows "0 \<le> (drop_bit 8 sh AND 3) OR push_bit 2 fr"
    and "(drop_bit 8 sh AND 3) OR push_bit 2 fr < 256"
proof -
  have a: "0 \<le> drop_bit 8 sh AND 3" "drop_bit 8 sh AND 3 < 2 ^ 8"
    using AND_upper2 [of 3 "drop_bit 8 sh"] by simp_all
  have b: "0 \<le> push_bit 2 fr" "push_bit 2 fr < 2 ^ 8"
    using assms by (simp_all add: push_bit_eq_mult)
  show "0 \<le> (drop_bit 8 sh AND 3) OR push_bit 2 fr"
    using a(1) b(1) by simp
  show "(drop_bit 8 sh AND 3) OR push_bit 2 fr < 256"
    using OR_upper [OF a(1) a(2) b(2)] by simp
qed

lemma replicate_10: "replicate 10 (0::int) = [0, 0, 0, 0, 0, 0, 0, 0, 0, 0]"
  by (simp add: numeral_eq_Suc)

lemma bytearray_set_ok:
  "0 \<le> v \<Longrightarrow> v < 256 \<Longrightarrow> bytearray_set buf i v = Inr (buf[i := v])"
  by (simp add: bytearray_set_def)

lemma UltimaObject_getattr_simps:
  "UltimaObject_getattr obj ''x'' = Inr (o_x obj)"
  "UltimaObject_getattr obj ''y'' = Inr (o_y obj)"
  "UltimaObject_getattr obj ''shape'' = Inr (o_shape obj)"
  "UltimaObject_getattr obj ''frame'' = Inr (o_frame obj)"
  "UltimaObject_getattr obj ''lift'' = Inr (o_lift obj)"
  "UltimaObject_getattr obj ''quality'' = Inr (o_quality obj)"
  by (simp_all add: UltimaObject_getattr_def)

lemma bind_err_Inr: "bind_err (Inr v) f = f v"
  by (simp add: bind_err_def)

text \<open>
  What the body of \<open>to_ireg_bytes\<close> computes from the fields of an \<open>UltimaObject\<close> whose
  frame is in \<open>0..63\<close>: the ten-byte layout. (For a frame outside that range the
  assignment to \<open>buf[4]\<close> raises ValueError.)
\<close>

lemma to_ireg_bytes_layout:
  assumes "0 \<le> o_frame obj" and "o_frame obj < 64"
  shows "to_ireg_bytes (UltimaObject_getattr obj) =
     Inr [10,
          push_bit 4 ((o_x obj div 16) mod 16) OR (o_x obj mod 16),
          push_bit 4 ((o_y obj div 16) mod 16) OR (o_y obj mod 16),
          o_shape obj AND 255,
          (drop_bit 8 (o_shape obj) AND 3) OR push_bit 2 (o_frame obj),
          o_lift obj AND 15,
          o_quality obj AND 255,
          0, 0, 0]"
proof -
  have b4: "bytearray_set buf 4 ((drop_bit 8 (o_shape obj) AND 3) OR push_bit 2 (o_frame obj)) =
      Inr (buf[4 := (drop_bit 8 (o_shape obj) AND 3) OR push_bit 2 (o_frame obj)])" for buf
    by (rule bytearray_set_ok) (rule byte_shape_frame [OF assms])+
  show ?thesis
    by (simp add: to_ireg_bytes_def UltimaObject_getattr_simps bind_err_Inr replicate_10
        bytearray_set_ok byte_pos byte_and b4)
qed

lemma to_ireg_bytes_layout_17_33:
  "to_ireg_bytes (UltimaObject_getattr (UltimaObject_new 1 17 33 0)) =
     Inr [10, 17, 33, 1, 0, 0, 0, 0, 0, 0]"
  by (simp add: to_ireg_bytes_def UltimaObject_getattr_def bind_err_def bytearray_set_def
      UltimaObject_new_def replicate_10)

lemma to_ireg_bytes_frame_64:
  "to_ireg_bytes (UltimaObject_getattr ((UltimaObject_new 1 17 33 0)\<lparr>o_frame := 64\<rparr>)) =
     Inl ValueError"
  by (simp add: to_ireg_bytes_def UltimaObject_getattr_def bind_err_def bytearray_set_def
      UltimaObject_new_def replicate_10)

lemma NPCProfile_to_ireg_bytes_raises:
  "NPCProfile_to_ireg_bytes p = Inl (AttributeError ''NPCProfile'' ''x'')"
  by (simp add: NPCProfile_to_ireg_bytes_def NPCProfile_methods_def to_ireg_bytes_def
      NPCProfile_getattr_def bind_err_def)

text \<open>
  C1. The claim: every placed object encodes to the ten-byte record, an object at tile
  (17, 33) with bytes 1 and 2 equal to 0x11 and 0x21. In the source the method that
  computes the record is a method of \<open>NPCProfile\<close>, not of \<open>UltimaObject\<close>: the call
  \<open>obj.to_ireg_bytes()\<close> that \<open>export_ireg\<close> makes on a placed object raises
  AttributeError, for the object at tile (17, 33) as for every other, and no record is
  written.
\<close>

theorem placed_object_encoding_raises:
  "UltimaObject_to_ireg_bytes (UltimaObject_new 1 17 33 0) =
     Inl (AttributeError ''UltimaObject'' ''to_ireg_bytes'') \<and>
   export_ireg_objects [UltimaObject_new 1 17 33 0] [] =
     Inl (AttributeError ''UltimaObject'' ''to_ireg_bytes'')"
  by (simp add: UltimaObject_to_ireg_bytes_def UltimaObject_methods_def
      export_ireg_objects_def bind_err_def)

section \<open>C7: the terrain classifier\<close>

lemma terrain_type_known:
  "map_of OSM_LANDUSE_TO_TERRAIN v = Some t \<Longrightarrow> map_of TERRAIN_SHAPES t \<noteq> None"
  "map_of OSM_NATURAL_TO_TERRAIN v = Some t \<Longrightarrow> map_of TERRAIN_SHAPES t \<noteq> None"
  "map_of OSM_SURFACE_TO_TERRAIN v = Some t \<Longrightarrow> map_of TERRAIN_SHAPES t \<noteq> None"
  "map_of OSM_HIGHWAY_TO_TERRAIN v = Some t \<Longrightarrow> map_of TERRAIN_SHAPES t \<noteq> None"
  "map_of OSM_WATERWAY_TO_TERRAIN v = Some t \<Longrightarrow> map_of TERRAIN_SHAPES t \<noteq> None"
  by (auto simp: OSM_LANDUSE_TO_TERRAIN_def OSM_NATURAL_TO_TERRAIN_def
      OSM_SURFACE_TO_TERRAIN_def OSM_HIGHWAY_TO_TERRAIN_def OSM_WATERWAY_TO_TERRAIN_def
      TERRAIN_SHAPES_def split: if_splits)

lemma empty_value_unmapped:
  "map_of OSM_LANDUSE_TO_TERRAIN [] = None"
  "map_of OSM_NATURAL_TO_TERRAIN [] = None"
  "map_of OSM_SURFACE_TO_TERRAIN [] = None"
  "map_of OSM_HIGHWAY_TO_TERRAIN [] = None"
  "map_of OSM_WATERWAY_TO_TERRAIN [] = None"
  by (simp_all add: OSM_LANDUSE_TO_TERRAIN_def OSM_NATURAL_TO_TERRAIN_def
      OSM_SURFACE_TO_TERRAIN_def OSM_HIGHWAY_TO_TERRAIN_def OSM_WATERWAY_TO_TERRAIN_def)

lemma dict_get_known:
  "map_of d k \<noteq> None \<Longrightarrow> dict_get d k dflt = subscript d k"
  by (auto simp: dict_get_def subscript_def)

text \<open>
  C7. For every tag set the classifier returns the candidate set of the terrain type of
  the first category, in the order landuse, natural, surface, highway, waterway, whose
  table maps the tag's value; a tag that is absent or whose value the table does not map
  passes to the next category; when no category maps, the result is the grass candidate
  set. (The classifier is a function of the tag set alone.)
\<close>

theorem get_terrain_shape_precedence:
  "get_terrain_shape osm_tags =
     (case first_terrain osm_tags of
        None \<Rightarrow> subscript TERRAIN_SHAPES ''grass''
      | Some t \<Rightarrow> subscript TERRAIN_SHAPES t)"
proof -
  have m: "tag_mapped osm_tags key table \<longleftrightarrow> category_terrain osm_tags (key, table) \<noteq> None"
    if "map_of table [] = None" for key table
    using that by (auto simp: tag_mapped_def category_terrain_def split: option.splits)
  have t: "category_terrain osm_tags (key, table) = Some ty \<Longrightarrow>
      tag_lookup osm_tags key table = ty" for key table ty
    by (auto simp: tag_lookup_def category_terrain_def split: option.splits)
  have k: "category_terrain osm_tags (key, table) = Some ty \<Longrightarrow>
      (\<And>v u. map_of table v = Some u \<Longrightarrow> map_of TERRAIN_SHAPES u \<noteq> None) \<Longrightarrow>
      dict_get TERRAIN_SHAPES ty dflt = subscript TERRAIN_SHAPES ty" for key table ty dflt
    by (rule dict_get_known) (auto simp: category_terrain_def split: option.splits)
  show ?thesis
  proof (cases "category_terrain osm_tags (''landuse'', OSM_LANDUSE_TO_TERRAIN)")
    case (Some ty)
    then show ?thesis
      using t [OF Some] k [OF Some terrain_type_known(1)]
      by (simp add: get_terrain_shape_def first_terrain_def terrain_precedence_def
          List.map_filter_simps m empty_value_unmapped)
  next
    case n1: None
    show ?thesis
    proof (cases "category_terrain osm_tags (''natural'', OSM_NATURAL_TO_TERRAIN)")
      case (Some ty)
      then show ?thesis
        using n1 t [OF Some] k [OF Some terrain_type_known(2)]
        by (simp add: get_terrain_shape_def first_terrain_def terrain_precedence_def
            List.map_filter_simps m empty_value_unmapped)
    next
      case n2: None
      show ?thesis
      proof (cases "category_terrain osm_tags (''surface'', OSM_SURFACE_TO_TERRAIN)")
        case (Some ty)
        then show ?thesis
          using n1 n2 t [OF Some] k [OF Some terrain_type_known(3)]
          by (simp add: get_terrain_shape_def first_terrain_def terrain_precedence_def
              List.map_filter_simps m empty_value_unmapped)
      next
        case n3: None
        show ?thesis
        proof (cases "category_terrain osm_tags (''highway'', OSM_HIGHWAY_TO_TERRAIN)")
          case (Some ty)
          then show ?thesis
            using n1 n2 n3 t [OF Some] k [OF Some terrain_type_known(4)]
            by (simp add: get_terrain_shape_def first_terrain_def terrain_precedence_def
                List.map_filter_simps m empty_value_unmapped)
        next
          case n4: None
          show ?thesis
          proof (cases "category_terrain osm_tags (''waterway'', OSM_WATERWAY_TO_TERRAIN)")
            case (Some ty)
            then show ?thesis
              using n1 n2 n3 n4 t [OF Some] k [OF Some terrain_type_known(5)]
              by (simp add: get_terrain_shape_def first_terrain_def terrain_precedence_def
                  List.map_filter_simps m empty_value_unmapped)
          next
            case n5: None
            then show ?thesis
              using n1 n2 n3 n4
              by (simp add: get_terrain_shape_def first_terrain_def terrain_precedence_def
                  List.map_filter_simps m empty_value_unmapped)
          qed
        qed
      qed
    qed
  qed
qed

section \<open>C5: the coordinate transform\<close>

lemma py_int_of_int: "py_int (of_int n) = n"
  by (simp add: py_int_def)

lemma py_int_half: "py_int (0.5 * of_int (n * 16)) = n * 8"
proof -
  have "(0.5 :: real) * of_int (n * 16) = of_int (n * 8)"
    by simp
  then show ?thesis
    by (simp only: py_int_of_int)
qed

lemma clamp_bounds:
  fixes n t :: int
  shows "0 < n \<Longrightarrow> 0 \<le> max 0 (min (n - 1) t) \<and> max 0 (min (n - 1) t) \<le> n - 1"
  by auto

lemma osm_to_ultima_fst:
  "fst (osm_to_ultima tr lon lat) =
     max 0 (min (tiles_x tr - 1)
       (py_int ((if lon_range tr > 0 then (lon - min_lon tr) / lon_range tr else 0.5) *
          of_int (tiles_x tr))))"
  by (simp add: osm_to_ultima_def Let_def)

lemma osm_to_ultima_snd:
  "snd (osm_to_ultima tr lon lat) =
     max 0 (min (tiles_y tr - 1)
       (py_int ((1 - (if lat_range tr > 0 then (lat - min_lat tr) / lat_range tr else 0.5)) *
          of_int (tiles_y tr))))"
  by (simp add: osm_to_ultima_def Let_def)

text \<open>
  C5. For a transformer built from a bounding box and a world of \<open>w\<close> by \<open>h\<close> chunks
  (both positive, so that the world has \<open>W = 16 w\<close> by \<open>H = 16 h\<close> tiles):
  with a positive latitude span the point \<open>(minLon, maxLat)\<close> maps to \<open>tileY = 0\<close> and
  \<open>(minLon, minLat)\<close> to \<open>tileY = H - 1\<close>; every output lies in \<open>[0, W - 1]\<close> and
  \<open>[0, H - 1]\<close>; and with a zero span on an axis every point maps to the midpoint
  \<open>W div 2\<close> (or \<open>H div 2\<close>) of that axis. The transform is a function of the transformer
  and the point alone.
\<close>

theorem osm_to_ultima_flip_clamp_midpoint:
  assumes "0 < w" and "0 < h"
    and "tr = CoordinateTransformer_new (mn_lon, mn_lat, mx_lon, mx_lat) (w, h)"
  shows "(mn_lat < mx_lat \<longrightarrow>
           snd (osm_to_ultima tr mn_lon mx_lat) = 0 \<and>
           snd (osm_to_ultima tr mn_lon mn_lat) = tiles_y tr - 1) \<and>
         (0 \<le> fst (osm_to_ultima tr lon lat) \<and> fst (osm_to_ultima tr lon lat) \<le> tiles_x tr - 1 \<and>
          0 \<le> snd (osm_to_ultima tr lon lat) \<and> snd (osm_to_ultima tr lon lat) \<le> tiles_y tr - 1) \<and>
         (mx_lon = mn_lon \<longrightarrow> fst (osm_to_ultima tr lon lat) = tiles_x tr div 2) \<and>
         (mx_lat = mn_lat \<longrightarrow> snd (osm_to_ultima tr lon lat) = tiles_y tr div 2) \<and>
         tiles_x tr = 16 * w \<and> tiles_y tr = 16 * h"
proof -
  have tx: "tiles_x tr = w * 16" and ty: "tiles_y tr = h * 16"
    and lo: "lon_range tr = mx_lon - mn_lon" and la: "lat_range tr = mx_lat - mn_lat"
    and ml: "min_lat tr = mn_lat"
    by (simp_all add: assms(3) CoordinateTransformer_new_def)
  have flip: "snd (osm_to_ultima tr mn_lon mx_lat) = 0 \<and>
      snd (osm_to_ultima tr mn_lon mn_lat) = tiles_y tr - 1" if "mn_lat < mx_lat"
  proof -
    have "py_int (of_int (tiles_y tr)) = tiles_y tr"
      by (rule py_int_of_int)
    then show ?thesis
      using that assms(2) by (simp add: osm_to_ultima_snd la ml ty py_int_def)
  qed
  have clamp: "0 \<le> fst (osm_to_ultima tr lon lat) \<and>
      fst (osm_to_ultima tr lon lat) \<le> tiles_x tr - 1 \<and>
      0 \<le> snd (osm_to_ultima tr lon lat) \<and> snd (osm_to_ultima tr lon lat) \<le> tiles_y tr - 1"
    unfolding osm_to_ultima_fst osm_to_ultima_snd
    using assms(1,2) clamp_bounds [of "tiles_x tr"] clamp_bounds [of "tiles_y tr"]
    by (simp only: tx ty)
  have midx: "fst (osm_to_ultima tr lon lat) = tiles_x tr div 2" if "mx_lon = mn_lon"
    using that assms(1) py_int_half [of w]
    by (simp add: osm_to_ultima_fst lo tx)
  have midy: "snd (osm_to_ultima tr lon lat) = tiles_y tr div 2" if "mx_lat = mn_lat"
    using that assms(2) py_int_half [of h]
    by (simp add: osm_to_ultima_snd la ty)
  from flip clamp midx midy tx ty show ?thesis
    by simp
qed

theorem osm_to_ultima_flip_clamp_midpoint_witness:
  "(0::int) < 16 \<and>
   snd (osm_to_ultima (CoordinateTransformer_new (0, 0, 1, 1) (16, 16)) 0 1) = 0 \<and>
   snd (osm_to_ultima (CoordinateTransformer_new (0, 0, 1, 1) (16, 16)) 0 0) = 255 \<and>
   fst (osm_to_ultima (CoordinateTransformer_new (0, 0, 1, 1) (16, 16)) 2 (- 1)) \<le> 255 \<and>
   fst (osm_to_ultima (CoordinateTransformer_new (3, 4, 3, 4) (16, 16)) 7 9) = 128 \<and>
   snd (osm_to_ultima (CoordinateTransformer_new (3, 4, 3, 4) (16, 16)) 7 9) = 128"
  using osm_to_ultima_flip_clamp_midpoint [of 16 16 _ 0 0 1 1 2 "- 1", OF _ _ refl]
    osm_to_ultima_flip_clamp_midpoint [of 16 16 _ 3 4 3 4 7 9, OF _ _ refl]
  by simp

section \<open>C2: lines of terrain\<close>

lemma set_py_range: "set (py_range a b) = {i. a \<le> i \<and> i < b}"
  by (auto simp: py_range_def)

lemma set_width_offsets: "set (width_offsets w) = {d. (- w) div 2 \<le> d \<and> d \<le> w div 2}"
  by (auto simp: width_offsets_def set_py_range)

lemma in_square_tiles_offsets:
  "(tx, ty) \<in> set (square_tiles dims w c) \<longleftrightarrow>
     (\<exists>wx \<in> set (width_offsets w). \<exists>wy \<in> set (width_offsets w).
        tx = fst c + wx \<and> ty = snd c + wy \<and>
        0 \<le> tx \<and> tx < fst dims * 16 \<and> 0 \<le> ty \<and> ty < snd dims * 16)"
  by (auto simp: square_tiles_def)

lemma in_square_tiles:
  "(tx, ty) \<in> set (square_tiles dims w c) \<longleftrightarrow>
     (- w) div 2 \<le> tx - fst c \<and> tx - fst c \<le> w div 2 \<and>
     (- w) div 2 \<le> ty - snd c \<and> ty - snd c \<le> w div 2 \<and>
     0 \<le> tx \<and> tx < fst dims * 16 \<and> 0 \<le> ty \<and> ty < snd dims * 16"
proof
  assume "(tx, ty) \<in> set (square_tiles dims w c)"
  then show "(- w) div 2 \<le> tx - fst c \<and> tx - fst c \<le> w div 2 \<and>
     (- w) div 2 \<le> ty - snd c \<and> ty - snd c \<le> w div 2 \<and>
     0 \<le> tx \<and> tx < fst dims * 16 \<and> 0 \<le> ty \<and> ty < snd dims * 16"
    by (auto simp: in_square_tiles_offsets set_width_offsets)
next
  assume r: "(- w) div 2 \<le> tx - fst c \<and> tx - fst c \<le> w div 2 \<and>
     (- w) div 2 \<le> ty - snd c \<and> ty - snd c \<le> w div 2 \<and>
     0 \<le> tx \<and> tx < fst dims * 16 \<and> 0 \<le> ty \<and> ty < snd dims * 16"
  then have x: "tx - fst c \<in> set (width_offsets w)" and y: "ty - snd c \<in> set (width_offsets w)"
    by (simp_all add: set_width_offsets)
  show "(tx, ty) \<in> set (square_tiles dims w c)"
    unfolding in_square_tiles_offsets
    by (rule bexI [OF _ x], rule bexI [OF _ y]) (use r in simp)
qed

lemma set_square_tiles:
  "set (square_tiles dims w c) =
     {(tx, ty). (- w) div 2 \<le> tx - fst c \<and> tx - fst c \<le> w div 2 \<and>
                (- w) div 2 \<le> ty - snd c \<and> ty - snd c \<le> w div 2 \<and>
                0 \<le> tx \<and> tx < fst dims * 16 \<and> 0 \<le> ty \<and> ty < snd dims * 16}"
  using in_square_tiles [of _ _ dims w c] by auto

lemma set_square_tiles_even:
  assumes "even w"
  shows "set (square_tiles dims w c) =
     {(tx, ty). - (w div 2) \<le> tx - fst c \<and> tx - fst c \<le> w div 2 \<and>
                - (w div 2) \<le> ty - snd c \<and> ty - snd c \<le> w div 2 \<and>
                0 \<le> tx \<and> tx < fst dims * 16 \<and> 0 \<le> ty \<and> ty < snd dims * 16}"
proof -
  from assms have "(- w) div 2 = - (w div 2)"
    by presburger
  then show ?thesis
    by (simp add: set_square_tiles)
qed

lemma set_square_tiles_odd:
  assumes "odd w"
  shows "set (square_tiles dims w c) =
     {(tx, ty). - (w div 2) - 1 \<le> tx - fst c \<and> tx - fst c \<le> w div 2 \<and>
                - (w div 2) - 1 \<le> ty - snd c \<and> ty - snd c \<le> w div 2 \<and>
                0 \<le> tx \<and> tx < fst dims * 16 \<and> 0 \<le> ty \<and> ty < snd dims * 16}"
proof -
  from assms have "(- w) div 2 = - (w div 2) - 1"
    by presburger
  then show ?thesis
    by (simp add: set_square_tiles)
qed

lemma draw_line_terrain_same_tile:
  assumes "osm_to_ultima (transformer (fst s)) (fst a) (snd a) =
           osm_to_ultima (transformer (fst s)) (fst b) (snd b)"
  shows "draw_line_terrain a b shapes w s =
           paint_tile shapes (osm_to_ultima (transformer (fst s)) (fst a) (snd a)) s"
  using assms by (simp add: draw_line_terrain_def Let_def)

lemma py_int_numeral: "py_int (numeral n) = numeral n" "py_int 0 = 0" "py_int 1 = 1"
  by (simp_all add: py_int_def)

lemma osm_to_ultima_5_11:
  "osm_to_ultima (CoordinateTransformer_new (0, 0, 16, 16) (1, 1)) 5 11 = (5, 5)"
  by (simp add: osm_to_ultima_def CoordinateTransformer_new_def Let_def py_int_numeral)

lemma osm_to_ultima_6_11:
  "osm_to_ultima (CoordinateTransformer_new (0, 0, 16, 16) (1, 1)) 6 11 = (6, 5)"
  by (simp add: osm_to_ultima_def CoordinateTransformer_new_def Let_def py_int_numeral)

lemma square_tiles_width_1:
  "square_tiles (1, 1) 1 (5, 5) = [(4, 4), (4, 5), (5, 4), (5, 5)]"
  "square_tiles (1, 1) 1 (6, 5) = [(5, 4), (5, 5), (6, 4), (6, 5)]"
  by (simp_all add: square_tiles_def width_offsets_def py_range_def upto.simps)

lemma lerp_5_6:
  "lerp 5 6 0 1 = 5" "lerp 5 6 1 1 = 6" "lerp 5 5 0 1 = 5" "lerp 5 5 1 1 = 5"
  by (simp_all add: lerp_def py_int_numeral)

text \<open>
  C2. The claim: around every interpolated centre the tiles painted are the offsets
  \<open>[-(w div 2), +(w div 2)]\<close> on each axis, a square of side \<open>2 * (w div 2) + 1\<close>. The
  source's lower bound \<open>-width // 2\<close> is \<open>(-width) // 2\<close>; for an odd width it is one
  less than \<open>-(width // 2)\<close> (lemma \<open>set_square_tiles_odd\<close>; for an even width the square
  is the claimed one, lemma \<open>set_square_tiles_even\<close>). With width 1, the segment from tile
  (5, 5) to tile (6, 5) paints the four tiles (4, 4), (4, 5), (5, 4), (5, 5) around its
  first centre, where the claim has the centre alone: tile (4, 4) ends with the painted
  shape 8.
\<close>

theorem draw_line_terrain_width_1:
  "square_tiles (1, 1) 1 (5, 5) = [(4, 4), (4, 5), (5, 4), (5, 5)] \<and>
   (case draw_line_terrain (5, 11) (6, 11) [8] 1
           (MapGenerator_new (0, 0, 16, 16) (1, 1), sconst 0) of
      Inl e \<Rightarrow> False
    | Inr (gen, g) \<Rightarrow>
        terrain_at (ultima_map gen) 4 4 = Some 8 \<and>
        terrain_at (ultima_map gen) 5 5 = Some 8 \<and>
        terrain_at (ultima_map gen) 3 3 = Some 4)"
  by (simp add: draw_line_terrain_def MapGenerator_new_def osm_to_ultima_5_11
      osm_to_ultima_6_11 Let_def py_range_def lerp_5_6 square_tiles_width_1 upto.simps
      paint_tile_def random_choice_def bind_err_def set_terrain_def get_chunk_def
      UltimaMap_new_def update_chunk_def terrain_store_def UltimaChunk_new_def terrain_at_def)

section \<open>C4: room plans\<close>

lemma count_list_distinct:
  "distinct xs \<Longrightarrow> count_list xs x = (if x \<in> set xs then 1 else 0)"
  by (induction xs) auto

lemma distinct_py_range: "distinct (py_range a b)"
  by (simp add: py_range_def)

lemma wall_shapes_nonempty: "dict_get OBJECT_SHAPES ''wall'' [151] \<noteq> []"
  by (simp add: dict_get_def OBJECT_SHAPES_def)

lemma count_row:
  "count_list (map (\<lambda>x. (x, r)) (filter c (py_range a b))) (tx, ty) =
     (if ty = r \<and> a \<le> tx \<and> tx < b \<and> c tx then 1 else 0)"
proof -
  have "distinct (map (\<lambda>x. (x, r)) (filter c (py_range a b)))"
    by (simp add: distinct_map distinct_py_range inj_on_def)
  then show ?thesis
    by (auto simp: count_list_distinct set_py_range)
qed

lemma for_each_map: "for_each f (map h xs) s = for_each (\<lambda>a. f (h a)) xs s"
  by (induction xs arbitrary: s) (auto split: sum.splits)

text \<open>
  C4 (amended). For an interior of at least 6 by 6 (\<open>max - min\<close> on each axis), given a
  well-formed map: a house or residential building is split into a living room and a
  bedroom at the row \<open>mid_y = min_y + height div 2\<close>, and every tile of that row from
  \<open>min_x\<close> to \<open>max_x\<close> receives one wall object, except the tile at
  \<open>x = (min_x + max_x) div 2\<close>, which receives none (the doorway); no other tile receives
  an object. A shop, retail or commercial building, a tavern, and a castle or government
  building are split into their rooms and the map is left as it is: no wall object is
  added.
\<close>

theorem plan_rooms_walls:
  assumes "wf_map (ultima_map gen)" and "6 \<le> max_x - min_x" and "6 \<le> max_y - min_y"
  shows
    "(bt \<in> {''house'', ''residential''} \<longrightarrow>
       (\<exists>gen' g'.
          plan_rooms bt min_x min_y max_x max_y (gen, g) =
            Inr ([mk_room ''living'' min_x min_y max_x (min_y + (max_y - min_y) div 2),
                  mk_room ''bedroom'' min_x (min_y + (max_y - min_y) div 2 + 1) max_x max_y],
                 (gen', g')) \<and>
          (\<forall>tx ty. \<exists>os.
             added_objects (ultima_map gen) (ultima_map gen') (tx, ty) os \<and>
             length os =
               (if ty = min_y + (max_y - min_y) div 2 \<and> min_x \<le> tx \<and> tx \<le> max_x \<and>
                   tx \<noteq> (min_x + max_x) div 2 then 1 else 0) \<and>
             list_all (\<lambda>obj. o_lift obj = 0 \<and>
                o_shape obj \<in> set (dict_get OBJECT_SHAPES ''wall'' [151])) os))) \<and>
     (bt \<in> {''shop'', ''retail'', ''commercial''} \<longrightarrow>
        plan_rooms bt min_x min_y max_x max_y (gen, g) =
          Inr ([mk_room ''showroom'' min_x min_y max_x (min_y + ((max_y - min_y) * 2) div 3),
                mk_room ''storage'' min_x (min_y + ((max_y - min_y) * 2) div 3 + 1) max_x max_y],
               (gen, g))) \<and>
     (bt = ''tavern'' \<longrightarrow>
        plan_rooms bt min_x min_y max_x max_y (gen, g) =
          Inr ([mk_room ''main'' min_x min_y (min_x + ((max_x - min_x) * 2) div 3) max_y,
                mk_room ''kitchen'' (min_x + ((max_x - min_x) * 2) div 3 + 1) min_y max_x
                  (min_y + (max_y - min_y) div 2),
                mk_room ''bedroom'' (min_x + ((max_x - min_x) * 2) div 3 + 1)
                  (min_y + (max_y - min_y) div 2 + 1) max_x max_y],
               (gen, g))) \<and>
     (bt \<in> {''castle'', ''government''} \<longrightarrow>
        plan_rooms bt min_x min_y max_x max_y (gen, g) =
          Inr ([mk_room (if bt = ''castle'' then ''throne'' else ''hall'')
                  min_x min_y (min_x + (max_x - min_x) div 2) max_y,
                mk_room (if bt = ''castle'' then ''hall'' else ''office'')
                  (min_x + (max_x - min_x) div 2 + 1) min_y max_x max_y],
               (gen, g)))"
proof (intro conjI impI)
  assume bt: "bt \<in> {''house'', ''residential''}"
  let ?mid = "min_y + (max_y - min_y) div 2"
  let ?ws = "dict_get OBJECT_SHAPES ''wall'' [151]"
  let ?ts = "map (\<lambda>x. (x, ?mid)) (filter (\<lambda>x. x \<noteq> (min_x + max_x) div 2) (py_range min_x (max_x + 1)))"
  have loop: "for_each (\<lambda>x s'. if x \<noteq> (min_x + max_x) div 2
        then place_object ?ws 0 (x, ?mid) s' else Inr s') (py_range min_x (max_x + 1)) (gen, g) =
      for_each (place_object ?ws 0) ?ts (gen, g)"
    by (simp add: for_each_map for_each_filter)
  from for_each_place_object [OF wall_shapes_nonempty assms(1), of 0 ?ts g]
  obtain gen' g' where r: "for_each (place_object ?ws 0) ?ts (gen, g) = Inr (gen', g')"
    and e: "\<And>t. \<exists>os. added_objects (ultima_map gen) (ultima_map gen') t os \<and>
                  length os = count_list ?ts t \<and>
                  list_all (\<lambda>obj. o_lift obj = 0 \<and> o_shape obj \<in> set ?ws) os"
    by blast
  have p: "plan_rooms bt min_x min_y max_x max_y (gen, g) =
      Inr ([mk_room ''living'' min_x min_y max_x ?mid,
            mk_room ''bedroom'' min_x (?mid + 1) max_x max_y], (gen', g'))"
    using bt assms(2,3) r
    by (auto simp: plan_rooms_def Let_def loop bind_err_def)
  have "\<exists>os. added_objects (ultima_map gen) (ultima_map gen') (tx, ty) os \<and>
      length os = (if ty = ?mid \<and> min_x \<le> tx \<and> tx \<le> max_x \<and>
                   tx \<noteq> (min_x + max_x) div 2 then 1 else 0) \<and>
      list_all (\<lambda>obj. o_lift obj = 0 \<and> o_shape obj \<in> set ?ws) os" for tx ty
    using e [of "(tx, ty)"] by (auto simp: count_row)
  with p show "\<exists>gen' g'.
          plan_rooms bt min_x min_y max_x max_y (gen, g) =
            Inr ([mk_room ''living'' min_x min_y max_x ?mid,
                  mk_room ''bedroom'' min_x (?mid + 1) max_x max_y],
                 (gen', g')) \<and>
          (\<forall>tx ty. \<exists>os.
             added_objects (ultima_map gen) (ultima_map gen') (tx, ty) os \<and>
             length os =
               (if ty = ?mid \<and> min_x \<le> tx \<and> tx \<le> max_x \<and>
                   tx \<noteq> (min_x + max_x) div 2 then 1 else 0) \<and>
             list_all (\<lambda>obj. o_lift obj = 0 \<and> o_shape obj \<in> set ?ws) os)"
    by blast
next
  assume "bt \<in> {''shop'', ''retail'', ''commercial''}"
  with assms(2,3) show "plan_rooms bt min_x min_y max_x max_y (gen, g) =
          Inr ([mk_room ''showroom'' min_x min_y max_x (min_y + ((max_y - min_y) * 2) div 3),
                mk_room ''storage'' min_x (min_y + ((max_y - min_y) * 2) div 3 + 1) max_x max_y],
               (gen, g))"
    by (auto simp: plan_rooms_def Let_def)
next
  assume "bt = ''tavern''"
  with assms(2,3) show "plan_rooms bt min_x min_y max_x max_y (gen, g) =
          Inr ([mk_room ''main'' min_x min_y (min_x + ((max_x - min_x) * 2) div 3) max_y,
                mk_room ''kitchen'' (min_x + ((max_x - min_x) * 2) div 3 + 1) min_y max_x
                  (min_y + (max_y - min_y) div 2),
                mk_room ''bedroom'' (min_x + ((max_x - min_x) * 2) div 3 + 1)
                  (min_y + (max_y - min_y) div 2 + 1) max_x max_y],
               (gen, g))"
    by (simp add: plan_rooms_def Let_def)
next
  assume "bt \<in> {''castle'', ''government''}"
  with assms(2,3) show "plan_rooms bt min_x min_y max_x max_y (gen, g) =
          Inr ([mk_room (if bt = ''castle'' then ''throne'' else ''hall'')
                  min_x min_y (min_x + (max_x - min_x) div 2) max_y,
                mk_room (if bt = ''castle'' then ''hall'' else ''office'')
                  (min_x + (max_x - min_x) div 2 + 1) min_y max_x max_y],
               (gen, g))"
    by (auto simp: plan_rooms_def Let_def)
qed

lemma objects_at_new: "objects_at (ultima_map (MapGenerator_new bbox dims)) tx ty = []"
  by (simp add: objects_at_def chunk_objects_def MapGenerator_new_def UltimaMap_new_def)

lemma wf_map_MapGenerator_new: "wf_map (ultima_map (MapGenerator_new bbox dims))"
  by (simp add: MapGenerator_new_def wf_map_new)

theorem plan_rooms_walls_witness:
  "wf_map (ultima_map (MapGenerator_new (0, 0, 16, 16) (1, 1))) \<and>
   (\<exists>gen' g'.
      plan_rooms ''house'' 1 1 8 8 (MapGenerator_new (0, 0, 16, 16) (1, 1), sconst 0) =
        Inr ([mk_room ''living'' 1 1 8 4, mk_room ''bedroom'' 1 5 8 8], (gen', g')) \<and>
      objects_at (ultima_map gen') 4 4 = [] \<and>
      map (\<lambda>tx. length (objects_at (ultima_map gen') tx 4)) [1, 2, 3, 5, 6, 7, 8] =
        [1, 1, 1, 1, 1, 1, 1]) \<and>
   plan_rooms ''castle'' 1 1 8 8 (MapGenerator_new (0, 0, 16, 16) (1, 1), sconst 0) =
     Inr ([mk_room ''throne'' 1 1 4 8, mk_room ''hall'' 5 1 8 8],
          (MapGenerator_new (0, 0, 16, 16) (1, 1), sconst 0))"
proof -
  let ?G = "MapGenerator_new (0, 0, 16, 16) (1, 1)"
  note t = plan_rooms_walls [OF wf_map_MapGenerator_new, where bbox1 = "(0, 0, 16, 16)"
      and dims1 = "(1, 1)" and min_x = 1 and max_x = 8 and min_y = 1 and max_y = 8
      and g = "sconst 0"]
  from t [of "''house''"] obtain gen' g' where
    p: "plan_rooms ''house'' 1 1 8 8 (?G, sconst 0) =
        Inr ([mk_room ''living'' 1 1 8 4, mk_room ''bedroom'' 1 5 8 8], (gen', g'))"
    and e: "\<And>tx ty. \<exists>os. added_objects (ultima_map ?G) (ultima_map gen') (tx, ty) os \<and>
        length os = (if ty = 4 \<and> 1 \<le> tx \<and> tx \<le> 8 \<and> tx \<noteq> 4 then 1 else 0) \<and>
        list_all (\<lambda>obj. o_lift obj = 0 \<and>
          o_shape obj \<in> set (dict_get OBJECT_SHAPES ''wall'' [151])) os"
    by auto
  have l: "length (objects_at (ultima_map gen') tx ty) =
      (if ty = 4 \<and> 1 \<le> tx \<and> tx \<le> 8 \<and> tx \<noteq> 4 then 1 else 0)" for tx ty
    using e [of tx ty] by (auto simp: added_objects_def objects_at_new)
  have c: "plan_rooms ''castle'' 1 1 8 8 (?G, sconst 0) =
     Inr ([mk_room ''throne'' 1 1 4 8, mk_room ''hall'' 5 1 8 8], (?G, sconst 0))"
    using t [of "''castle''"] by simp
  have d: "objects_at (ultima_map gen') 4 4 = []"
    using l [of 4 4] by simp
  from p d l [of _ 4] c show ?thesis
    using wf_map_MapGenerator_new [of "(0, 0, 16, 16)" "(1, 1)"] by simp
qed

text \<open>
  The claim as stated (a wall along every split line, for every multi-room building type)
  fails for a shop with the interior of a 10 by 10 footprint: the interior is split into
  showroom and storage at row 5, and the session, map included, is returned unchanged.
\<close>

theorem plan_rooms_shop_no_wall:
  "plan_rooms ''shop'' 1 1 8 8 (MapGenerator_new (0, 0, 16, 16) (1, 1), sconst 0) =
     Inr ([mk_room ''showroom'' 1 1 8 5, mk_room ''storage'' 1 6 8 8],
          (MapGenerator_new (0, 0, 16, 16) (1, 1), sconst 0)) \<and>
   chunks (ultima_map (MapGenerator_new (0, 0, 16, 16) (1, 1))) = Map.empty"
  by (simp add: plan_rooms_def Let_def MapGenerator_new_def UltimaMap_new_def)

section \<open>Buildings: what a tile receives\<close>

lemma py_min_Min: "xs \<noteq> [] \<Longrightarrow> py_min xs = Min (set xs)"
proof (cases xs)
  case Nil
  then show "xs \<noteq> [] \<Longrightarrow> py_min xs = Min (set xs)" by simp
next
  case (Cons a list)
  show ?thesis
    unfolding Cons py_min_def using Min.set_eq_fold [of a list] by simp
qed

lemma py_max_Max: "xs \<noteq> [] \<Longrightarrow> py_max xs = Max (set xs)"
proof (cases xs)
  case Nil
  then show "xs \<noteq> [] \<Longrightarrow> py_max xs = Max (set xs)" by simp
next
  case (Cons a list)
  show ?thesis
    unfolding Cons py_max_def using Max.set_eq_fold [of a list] by simp
qed

lemma py_min_le_py_max: "xs \<noteq> [] \<Longrightarrow> py_min xs \<le> py_max xs"
  by (simp add: py_min_Min py_max_Max)

lemma count_list_concat_pairs:
  "count_list (concat (map (\<lambda>x. [f x, h x]) xs)) t =
     count_list (map f xs) t + count_list (map h xs) t"
  by (induction xs) auto

lemma count_list_map_inj:
  assumes "inj_on f (set xs)" and "distinct xs"
  shows "count_list (map f xs) t = (if t \<in> f ` set xs then 1 else 0)"
  using assms by (simp add: count_list_distinct distinct_map)

lemma count_fixed_row:
  "count_list (map (\<lambda>x. (x, r)) (py_range a b)) (tx, ty) =
     (if ty = r \<and> a \<le> tx \<and> tx < b then 1 else 0)"
  using count_row [of r "\<lambda>x. True" a b tx ty] by simp

lemma count_fixed_column:
  "count_list (map (\<lambda>y. (c, y)) (py_range a b)) (tx, ty) =
     (if tx = c \<and> a \<le> ty \<and> ty < b then 1 else 0)"
proof -
  have "distinct (map (\<lambda>y. (c, y)) (py_range a b))"
    by (simp add: distinct_map distinct_py_range inj_on_def)
  then show ?thesis
    by (auto simp: count_list_distinct set_py_range)
qed

lemma box_tiles_product:
  "box_tiles a b c d = List.product (py_range a (c + 1)) (py_range b (d + 1))"
  by (simp add: box_tiles_def List.product_concat_map concat_map_singleton)

lemma distinct_box_tiles: "distinct (box_tiles a b c d)"
  by (simp add: box_tiles_product distinct_product distinct_py_range)

lemma set_box_tiles:
  "set (box_tiles a b c d) = {(x, y). a \<le> x \<and> x \<le> c \<and> b \<le> y \<and> y \<le> d}"
  by (auto simp: box_tiles_def set_py_range)

lemma count_box_tiles:
  "count_list (box_tiles a b c d) (tx, ty) =
     (if a \<le> tx \<and> tx \<le> c \<and> b \<le> ty \<and> ty \<le> d then 1 else 0)"
  by (simp add: count_list_distinct distinct_box_tiles set_box_tiles)

lemma place_object_elsewhere:
  assumes "place_object shapes l t s = Inr s'" and "tile_kept tx ty os s" and "t \<noteq> (tx, ty)"
  shows "tile_kept tx ty os s'"
proof -
  obtain gen g where s: "s = (gen, g)" by (cases s)
  obtain gen' g' where s': "s' = (gen', g')" by (cases s')
  from place_object_Inr [OF assms(1) [unfolded s s']] obtain v where
    gen': "gen' = gen\<lparr>ultima_map :=
       add_object (UltimaObject_new v (fst t) (snd t) l) (ultima_map gen)\<rparr>"
    by blast
  from assms(2) have wf: "wf_map (ultima_map gen)"
    and o: "objects_at (ultima_map gen) tx ty = os"
    by (simp_all add: tile_kept_def s)
  show ?thesis
    using assms(3) o add_object_wf [OF wf]
      add_object_objects_at [OF wf, of "UltimaObject_new v (fst t) (snd t) l" tx ty]
    by (auto simp: tile_kept_def s' gen' UltimaObject_new_def prod_eq_iff)
qed

lemma try_place_furniture_elsewhere:
  assumes "try_place_furniture n room shapes (placed, s) = Inr (placed', s')"
    and "tile_kept tx ty os s"
    and "\<not> (room_min_x room \<le> tx \<and> tx \<le> room_max_x room \<and>
            room_min_y room \<le> ty \<and> ty \<le> room_max_y room)"
  shows "tile_kept tx ty os s'"
  using assms(1,2)
proof (induction n arbitrary: placed s)
  case 0
  then show ?case by simp
next
  case (Suc n)
  obtain gen g where s: "s = (gen, g)" by (cases s)
  from Suc.prems(1) obtain x g1 y g2 where
    x: "random_randint (room_min_x room) (room_max_x room) g = Inr (x, g1)"
    and y: "random_randint (room_min_y room) (room_max_y room) g1 = Inr (y, g2)"
    and r: "(if (x, y) \<notin> placed
       then bind_err (place_object shapes 0 (x, y) (gen, g2))
              (\<lambda>s'. Inr (insert (x, y) placed, s'))
       else try_place_furniture n room shapes (placed, (gen, g2))) = Inr (placed', s')"
    by (auto simp: s bind_err_eq_Inr)
  have k: "tile_kept tx ty os (gen, g2)"
    using Suc.prems(2) by (simp add: tile_kept_def s)
  show ?case
  proof (cases "(x, y) \<in> placed")
    case True
    with r have "try_place_furniture n room shapes (placed, (gen, g2)) = Inr (placed', s')"
      by simp
    then show ?thesis
      by (rule Suc.IH) (rule k)
  next
    case False
    with r have p: "place_object shapes 0 (x, y) (gen, g2) = Inr s'"
      by (auto simp: bind_err_eq_Inr)
    from random_randint_Inr [OF x] random_randint_Inr [OF y] assms(3)
    have "(x, y) \<noteq> (tx, ty)"
      by auto
    with p k show ?thesis
      by (rule place_object_elsewhere)
  qed
qed

lemma furnish_room_elsewhere:
  assumes "furnish_room ext bt room s = Inr s'" and "tile_kept tx ty os s"
    and "\<not> (room_min_x room \<le> tx \<and> tx \<le> room_max_x room \<and>
            room_min_y room \<le> ty \<and> ty \<le> room_max_y room)"
  shows "tile_kept tx ty os s'"
proof (cases "get_furniture_for_room ext bt (room_type room) = []")
  case True
  with assms(1,2) show ?thesis
    by (simp add: furnish_room_def)
next
  case False
  let ?f = "\<lambda>furniture_name st.
      let furniture_shapes = get_furniture_shapes ext furniture_name
      in if furniture_shapes = [] then Inr st
         else try_place_furniture 10 room furniture_shapes st"
  from assms(1) False obtain st where
    l: "for_each ?f (get_furniture_for_room ext bt (room_type room)) ({}, s) = Inr st"
    and st: "s' = snd st"
    by (auto simp: furnish_room_def Let_def bind_err_eq_Inr)
  have "tile_kept tx ty os (snd st)"
  proof (rule for_each_invariant [OF l, where P = "\<lambda>st. tile_kept tx ty os (snd st)"])
    show "tile_kept tx ty os (snd ({}, s))"
      using assms(2) by simp
  next
    fix a t t'
    assume t: "tile_kept tx ty os (snd t)" and f: "?f a t = Inr t'"
    show "tile_kept tx ty os (snd t')"
    proof (cases "get_furniture_shapes ext a = []")
      case True
      with f t show ?thesis by (simp add: Let_def)
    next
      case False
      with f have "try_place_furniture 10 room (get_furniture_shapes ext a) (fst t, snd t) =
          Inr (fst t', snd t')"
        by (simp add: Let_def)
      then show ?thesis
        by (rule try_place_furniture_elsewhere) (rule t, rule assms(3))
    qed
  qed
  with st show ?thesis by simp
qed

lemma for_each_place_object_elsewhere:
  assumes "for_each (place_object shapes l) ts s = Inr s'" and "tile_kept tx ty os s"
    and "(tx, ty) \<notin> set ts"
  shows "tile_kept tx ty os s'"
  by (rule for_each_invariant [OF assms(1), where P = "tile_kept tx ty os"])
    (use assms(2,3) in \<open>auto intro: place_object_elsewhere\<close>)

lemma plan_rooms_elsewhere:
  assumes "plan_rooms bt min_x min_y max_x max_y s = Inr (rooms, s')"
    and "tile_kept tx ty os s"
    and "\<not> (min_x \<le> tx \<and> tx \<le> max_x \<and> min_y \<le> ty \<and> ty \<le> max_y)"
    and "0 \<le> max_x - min_x" and "0 \<le> max_y - min_y"
  shows "tile_kept tx ty os s' \<and> list_all (room_within min_x min_y max_x max_y) rooms"
proof (cases "max_x - min_x < 6 \<or> max_y - min_y < 6")
  case True
  with assms(1) have "s' = s" and "rooms = [mk_room ''main'' min_x min_y max_x max_y]"
    by (simp_all add: plan_rooms_def Let_def)
  with assms(2,4,5) show ?thesis
    by (simp add: room_within_def mk_room_def)
next
  case big: False
  show ?thesis
  proof (cases "bt \<in> set [''house'', ''residential'']")
    case True
    let ?mid = "min_y + (max_y - min_y) div 2"
    let ?ws = "dict_get OBJECT_SHAPES ''wall'' [151]"
    let ?ts = "map (\<lambda>x. (x, ?mid))
      (filter (\<lambda>x. x \<noteq> (min_x + max_x) div 2) (py_range min_x (max_x + 1)))"
    have loop: "for_each (\<lambda>x s'. if x \<noteq> (min_x + max_x) div 2
          then place_object ?ws 0 (x, ?mid) s' else Inr s') (py_range min_x (max_x + 1)) s =
        for_each (place_object ?ws 0) ?ts s"
      by (simp add: for_each_map for_each_filter)
    from assms(1) True big have r: "for_each (place_object ?ws 0) ?ts s = Inr s'"
      and rooms: "rooms = [mk_room ''living'' min_x min_y max_x ?mid,
            mk_room ''bedroom'' min_x (?mid + 1) max_x max_y]"
      by (auto simp: plan_rooms_def Let_def loop bind_err_eq_Inr)
    have "(tx, ty) \<notin> set ?ts"
      using assms(3) big by (auto simp: set_py_range)
    with r assms(2) have "tile_kept tx ty os s'"
      by (rule for_each_place_object_elsewhere)
    moreover have "list_all (room_within min_x min_y max_x max_y) rooms"
      using big by (auto simp: rooms room_within_def mk_room_def)
    ultimately show ?thesis by simp
  next
    case nh: False
    from big have w: "0 \<le> max_x - min_x" "0 \<le> max_y - min_y"
      by simp_all
    have ar: "min_x + ((max_x - min_x) * 2) div 3 \<le> max_x"
      "min_y + ((max_y - min_y) * 2) div 3 \<le> max_y"
      "min_x + (max_x - min_x) div 2 \<le> max_x"
      "min_y + (max_y - min_y) div 2 \<le> max_y"
      using w by presburger+
    have ws: "room_within min_x min_y max_x max_y (mk_room ty a b c d) \<longleftrightarrow>
        min_x \<le> a \<and> c \<le> max_x \<and> min_y \<le> b \<and> d \<le> max_y" for ty a b c d
      by (simp add: room_within_def mk_room_def)
    show ?thesis
    proof (cases "bt \<in> set [''shop'', ''retail'', ''commercial'']")
      case True
      with assms(1) big nh have "s' = s" and
        "rooms = [mk_room ''showroom'' min_x min_y max_x (min_y + ((max_y - min_y) * 2) div 3),
           mk_room ''storage'' min_x (min_y + ((max_y - min_y) * 2) div 3 + 1) max_x max_y]"
        by (simp_all add: plan_rooms_def Let_def)
      with assms(2) w ar show ?thesis
        by (simp add: ws)
    next
      case ns: False
      show ?thesis
      proof (cases "bt \<in> set [''tavern'']")
        case True
        with assms(1) big nh ns have "s' = s" and
          "rooms = [mk_room ''main'' min_x min_y (min_x + ((max_x - min_x) * 2) div 3) max_y,
             mk_room ''kitchen'' (min_x + ((max_x - min_x) * 2) div 3 + 1) min_y max_x
               (min_y + (max_y - min_y) div 2),
             mk_room ''bedroom'' (min_x + ((max_x - min_x) * 2) div 3 + 1)
               (min_y + (max_y - min_y) div 2 + 1) max_x max_y]"
          by (simp_all add: plan_rooms_def Let_def)
        with assms(2) w ar show ?thesis
          by (simp add: ws)
      next
        case nt: False
        show ?thesis
        proof (cases "bt \<in> set [''castle'', ''government'']")
          case True
          with assms(1) big nh ns nt have "s' = s" and
            "rooms = [mk_room (if bt = ''castle'' then ''throne'' else ''hall'')
                  min_x min_y (min_x + (max_x - min_x) div 2) max_y,
                mk_room (if bt = ''castle'' then ''hall'' else ''office'')
                  (min_x + (max_x - min_x) div 2 + 1) min_y max_x max_y]"
            by (simp_all add: plan_rooms_def Let_def)
          with assms(2) w ar show ?thesis
            by (simp add: ws)
        next
          case False
          with assms(1) big nh ns nt have "s' = s" and
            "rooms = [mk_room ''main'' min_x min_y max_x max_y]"
            by (simp_all add: plan_rooms_def Let_def)
          with assms(2) w ar show ?thesis
            by (simp add: ws)
        qed
      qed
    qed
  qed
qed

lemma generate_interior_elsewhere:
  assumes "generate_interior ext bt min_x min_y max_x max_y s = Inr s'"
    and "tile_kept tx ty os s"
    and "\<not> (min_x \<le> tx \<and> tx \<le> max_x \<and> min_y \<le> ty \<and> ty \<le> max_y)"
  shows "tile_kept tx ty os s'"
proof (cases "max_x - min_x < 2 \<or> max_y - min_y < 2")
  case True
  with assms(1,2) show ?thesis
    by (auto simp: generate_interior_def Let_def)
next
  case False
  with assms(1) obtain rooms s1 where
    p: "plan_rooms bt min_x min_y max_x max_y s = Inr (rooms, s1)"
    and f: "for_each (furnish_room ext bt) rooms s1 = Inr s'"
    by (auto simp: generate_interior_def Let_def bind_err_eq_Inr)
  from plan_rooms_elsewhere [OF p assms(2,3)] False
  have k: "tile_kept tx ty os s1" and w: "list_all (room_within min_x min_y max_x max_y) rooms"
    by auto
  show ?thesis
  proof (rule for_each_invariant [OF f, where P = "tile_kept tx ty os"])
    show "tile_kept tx ty os s1" by (rule k)
  next
    fix a t t'
    assume a: "a \<in> set rooms" and t: "tile_kept tx ty os t"
      and fr: "furnish_room ext bt a t = Inr t'"
    from a w have "room_within min_x min_y max_x max_y a"
      by (simp add: list_all_iff)
    with assms(3) have "\<not> (room_min_x a \<le> tx \<and> tx \<le> room_max_x a \<and>
            room_min_y a \<le> ty \<and> ty \<le> room_max_y a)"
      by (auto simp: room_within_def)
    with fr t show "tile_kept tx ty os t'"
      by (rule furnish_room_elsewhere)
  qed
qed

lemma vary_rng: "snd (vary b g) = stl g"
  by (simp add: vary_def random_uniform_def random_random_def split: prod.splits)

lemma create_npc_profile_Inr:
  assumes "create_npc_profile npc_type bt x y shape nd (gen, g) = Inr (p, (gen', g'))"
  shows "gen' = gen\<lparr>npc_counter := npc_counter gen + 1\<rparr> \<and>
         p_id p = npc_id_of (npc_counter gen + 1) \<and> p_relationships p = Map.empty"
  using assms
  by (auto simp: create_npc_profile_def Let_def bind_err_eq_Inr case_prod_beta)

lemma relate_profiles_length: "length (fst (relate_profiles ids ps g)) = length ps"
  by (induction ps arbitrary: g) (simp_all add: case_prod_beta)

lemma create_building_relationships_map:
  "ultima_map (fst (create_building_relationships ids s)) = ultima_map (fst s)"
  by (simp add: create_building_relationships_def case_prod_beta)

lemma try_place_npc_elsewhere:
  assumes "try_place_npc ext n npc_type bt nd min_x min_y max_x max_y (placed, ids, s) =
             Inr (placed', ids', s')"
    and "tile_kept tx ty os s"
    and "\<not> (min_x \<le> tx \<and> tx \<le> max_x \<and> min_y \<le> ty \<and> ty \<le> max_y)"
  shows "tile_kept tx ty os s'"
  using assms(1,2)
proof (induction n arbitrary: placed ids s)
  case 0
  then show ?case by simp
next
  case (Suc n)
  obtain gen g where s: "s = (gen, g)" by (cases s)
  from Suc.prems(1) obtain x g1 y g2 where
    x: "random_randint min_x max_x g = Inr (x, g1)"
    and y: "random_randint min_y max_y g1 = Inr (y, g2)"
    and r: "(if (x, y) \<notin> placed
       then
         bind_err (random_choice (nd_shapes nd) g2) (\<lambda>(shape, g3).
           let npc = (UltimaObject_new shape x y 0)\<lparr>o_quality := str_hash ext npc_type mod 256\<rparr>;
               gen1 = gen\<lparr>ultima_map := add_object npc (ultima_map gen)\<rparr>;
               gen2 = gen1\<lparr>npcs_placed := npcs_placed gen1 + 1\<rparr>
           in bind_err (create_npc_profile npc_type bt x y shape nd (gen2, g3))
                (\<lambda>(profile, (gen3, g4)).
                   Inr (insert (x, y) placed, ids @ [p_id profile],
                        (gen3\<lparr>npc_profiles := npc_profiles gen3 @ [profile]\<rparr>, g4))))
       else try_place_npc ext n npc_type bt nd min_x min_y max_x max_y
              (placed, ids, (gen, g2))) = Inr (placed', ids', s')"
    by (auto simp: s bind_err_eq_Inr)
  from Suc.prems(2) have wf: "wf_map (ultima_map gen)"
    and o: "objects_at (ultima_map gen) tx ty = os"
    by (simp_all add: tile_kept_def s)
  show ?case
  proof (cases "(x, y) \<in> placed")
    case True
    with r have "try_place_npc ext n npc_type bt nd min_x min_y max_x max_y
        (placed, ids, (gen, g2)) = Inr (placed', ids', s')"
      by simp
    then show ?thesis
      by (rule Suc.IH) (simp add: tile_kept_def wf o)
  next
    case False
    from random_randint_Inr [OF x] random_randint_Inr [OF y] assms(3)
    have ne: "\<not> (x = tx \<and> y = ty)"
      by auto
    from r False obtain shape g3 profile gen3 g4 where
      c: "create_npc_profile npc_type bt x y shape nd
           (gen\<lparr>ultima_map := add_object ((UltimaObject_new shape x y 0)
               \<lparr>o_quality := str_hash ext npc_type mod 256\<rparr>) (ultima_map gen),
              npcs_placed := Suc (npcs_placed gen)\<rparr>, g3) = Inr (profile, (gen3, g4))"
      and s': "s' = (gen3\<lparr>npc_profiles := npc_profiles gen3 @ [profile]\<rparr>, g4)"
      by (auto simp: bind_err_eq_Inr Let_def)
    from create_npc_profile_Inr [OF c] have
      m: "ultima_map gen3 = add_object ((UltimaObject_new shape x y 0)
               \<lparr>o_quality := str_hash ext npc_type mod 256\<rparr>) (ultima_map gen)"
      by simp
    show ?thesis
      using ne o add_object_wf [OF wf]
        add_object_objects_at [OF wf, of "(UltimaObject_new shape x y 0)
               \<lparr>o_quality := str_hash ext npc_type mod 256\<rparr>" tx ty]
      by (auto simp: tile_kept_def s' m UltimaObject_new_def)
  qed
qed

lemma place_building_npcs_elsewhere:
  assumes "place_building_npcs ext bt min_x min_y max_x max_y s = Inr s'"
    and "tile_kept tx ty os s"
    and "\<not> (min_x \<le> tx \<and> tx \<le> max_x \<and> min_y \<le> ty \<and> ty \<le> max_y)"
  shows "tile_kept tx ty os s'"
proof -
  obtain gen g where s: "s = (gen, g)" by (cases s)
  let ?area = "(max_x - min_x) * (max_y - min_y)"
  let ?chance = "if ?area < 16 then double_0_4 else if ?area < 36 then 0.5 else double_0_6"
  let ?max = "if ?area < 16 then 1 else if ?area < 36 then 2 else (3::int)"
  let ?types = "dict_get npc_mapping bt [''townsman'']"
  let ?body = "\<lambda>(_::int) st. case st of (placed, ids, (gen', g')) \<Rightarrow>
       bind_err (random_choice ?types g') (\<lambda>(npc_type, g'').
         case get_npc_with_dialogue ext npc_type of
           None \<Rightarrow> Inr (placed, ids, (gen', g''))
         | Some nd \<Rightarrow>
             if nd_shapes nd = [] then Inr (placed, ids, (gen', g''))
             else try_place_npc ext 10 npc_type bt nd
                    min_x min_y max_x max_y (placed, ids, (gen', g'')))"
  show ?thesis
  proof (cases "fst (random_random g) > ?chance")
    case True
    with assms(1) have "s' = (gen, snd (random_random g))"
      by (auto simp: place_building_npcs_def s Let_def split: prod.splits)
    with assms(2) show ?thesis
      by (simp add: tile_kept_def s)
  next
    case False
    with assms(1) obtain num_npcs g2 placed ids s1 where
      l: "for_each ?body (py_range 0 num_npcs) ({}, [], (gen, g2)) = Inr (placed, ids, s1)"
      and s': "s' = create_building_relationships ids s1"
      by (auto simp: place_building_npcs_def s Let_def bind_err_eq_Inr split: prod.splits)
    have "tile_kept tx ty os (snd (snd (placed, ids, s1)))"
    proof (rule for_each_invariant [OF l, where P = "\<lambda>st. tile_kept tx ty os (snd (snd st))"])
      show "tile_kept tx ty os (snd (snd ({}, [], gen, g2)))"
        using assms(2) by (simp add: tile_kept_def s)
    next
      fix a t t'
      assume t: "tile_kept tx ty os (snd (snd t))" and b: "?body a t = Inr t'"
      obtain pl ids0 gn gg where tt: "t = (pl, ids0, (gn, gg))"
        by (cases t) auto
      obtain pl' ids1 u' where tt': "t' = (pl', ids1, u')"
        by (cases t') auto
      from b obtain npc_type g'' where
        c: "(case get_npc_with_dialogue ext npc_type of
           None \<Rightarrow> Inr (pl, ids0, (gn, g''))
         | Some nd \<Rightarrow>
             if nd_shapes nd = [] then Inr (pl, ids0, (gn, g''))
             else try_place_npc ext 10 npc_type bt nd
                    min_x min_y max_x max_y (pl, ids0, (gn, g''))) = Inr (pl', ids1, u')"
        by (auto simp: tt tt' bind_err_eq_Inr)
      have k: "tile_kept tx ty os (gn, g'')"
        using t by (simp add: tt tile_kept_def)
      show "tile_kept tx ty os (snd (snd t'))"
      proof (cases "get_npc_with_dialogue ext npc_type")
        case None
        with c k show ?thesis by (auto simp: tt')
      next
        case (Some nd)
        show ?thesis
        proof (cases "nd_shapes nd = []")
          case True
          with c k Some show ?thesis by (auto simp: tt')
        next
          case False
          with c Some have "try_place_npc ext 10 npc_type bt nd
              min_x min_y max_x max_y (pl, ids0, (gn, g'')) = Inr (pl', ids1, u')"
            by simp
          from try_place_npc_elsewhere [OF this k assms(3)] show ?thesis
            by (simp add: tt')
        qed
      qed
    qed
    then show ?thesis
      by (simp add: s' tile_kept_def create_building_relationships_map)
  qed
qed

lemma OBJECT_SHAPES_nonempty: "map_of OBJECT_SHAPES k = Some v \<Longrightarrow> v \<noteq> []"
proof -
  assume "map_of OBJECT_SHAPES k = Some v"
  then have "(k, v) \<in> set OBJECT_SHAPES"
    by (rule map_of_SomeD)
  moreover have "list_all (\<lambda>kv. snd kv \<noteq> []) OBJECT_SHAPES"
    by (simp add: OBJECT_SHAPES_def)
  ultimately show ?thesis
    by (auto simp: list_all_iff)
qed

lemma dict_get_OBJECT_SHAPES_nonempty: "dflt \<noteq> [] \<Longrightarrow> dict_get OBJECT_SHAPES k dflt \<noteq> []"
  by (auto simp: dict_get_def OBJECT_SHAPES_nonempty split: option.splits)

lemma main_shapes_nonempty: "(k, v) \<in> set (main_shapes n) \<Longrightarrow> v \<noteq> []"
  by (auto simp: main_shapes_def OBJECT_SHAPES_nonempty split: option.splits)

lemma get_object_shapes_nonempty:
  assumes "(k, v) \<in> set (get_object_shapes tags)"
  shows "v \<noteq> []"
proof (cases "\<exists>c cs. tags ''building'' = Some (c # cs)")
  case True
  then obtain c cs where b: "tags ''building'' = Some (c # cs)"
    by blast
  from assms obtain comp shape_name where "map_of OBJECT_SHAPES shape_name = Some v"
    by (auto simp: get_object_shapes_def b Let_def List.map_filter_def split: option.splits)
  then show ?thesis
    by (rule OBJECT_SHAPES_nonempty)
next
  case False
  then have "tags ''building'' = None \<or> tags ''building'' = Some []"
  proof (cases "tags ''building''")
    case None
    then show ?thesis by simp
  next
    case (Some a)
    with False show ?thesis by (cases a) auto
  qed
  with assms have "(k, v) \<in> set (main_shapes (tag_lookup tags ''amenity'' OSM_AMENITY_TO_SHAPE)) \<or>
      (k, v) \<in> set (main_shapes (tag_lookup tags ''natural'' OSM_NATURAL_TO_SHAPE)) \<or>
      (k, v) \<in> set (main_shapes (tag_lookup tags ''barrier'' OSM_BARRIER_TO_SHAPE)) \<or>
      (k, v) \<in> set (main_shapes (tag_lookup tags ''man_made'' OSM_MAN_MADE_TO_SHAPE))"
    by (auto simp: get_object_shapes_def split: if_splits)
  then show ?thesis
    by (auto dest: main_shapes_nonempty)
qed

lemma building_shapes_nonempty: "dflt \<noteq> [] \<Longrightarrow> building_shapes tags c f dflt \<noteq> []"
proof -
  assume d: "dflt \<noteq> []"
  show ?thesis
  proof (cases "map_of (get_object_shapes tags) c")
    case None
    with d show ?thesis
      by (simp add: building_shapes_def dict_get_def [of "get_object_shapes tags"]
          dict_get_OBJECT_SHAPES_nonempty)
  next
    case (Some v)
    from map_of_SomeD [OF Some] have "v \<noteq> []"
      by (rule get_object_shapes_nonempty)
    with Some show ?thesis
      by (simp add: building_shapes_def dict_get_def [of "get_object_shapes tags"])
  qed
qed

lemma floor_shapes_nonempty: "dict_get TERRAIN_SHAPES ''floor'' [189] \<noteq> []"
  by (simp add: dict_get_def TERRAIN_SHAPES_def)

lemma process_building_unfold:
  assumes "3 \<le> length coords"
    and "footprint (transformer gen) coords = (min_x, min_y, max_x, max_y)"
  shows "process_building ext tags coords (gen, g) =
     bind_err (for_each (paint_tile (dict_get TERRAIN_SHAPES ''floor'' [189]))
                 (box_tiles min_x min_y max_x max_y) (gen, g)) (\<lambda>s1.
     bind_err (for_each
                 (\<lambda>x s'. bind_err (place_object (building_shapes tags ''walls'' ''wall'' [151]) 0 (x, min_y) s')
                            (place_object (building_shapes tags ''walls'' ''wall'' [151]) 0 (x, max_y)))
                 (py_range min_x (max_x + 1)) s1) (\<lambda>s2.
     bind_err (for_each
                 (\<lambda>y s'. bind_err (place_object (building_shapes tags ''walls'' ''wall'' [151]) 0 (min_x, y) s')
                            (place_object (building_shapes tags ''walls'' ''wall'' [151]) 0 (max_x, y)))
                 (py_range (min_y + 1) max_y) s2) (\<lambda>s3.
     bind_err (place_object (building_shapes tags ''door'' ''door'' [270]) 0
                 ((min_x + max_x) div 2, max_y) s3) (\<lambda>s4.
     bind_err (for_each (place_object (building_shapes tags ''roof'' ''roof_slate'' [164]) 4)
                 (box_tiles min_x min_y max_x max_y) s4) (\<lambda>s5.
     bind_err (if max 1 (max_x - min_x) \<ge> 4 \<and> max 1 (max_y - min_y) \<ge> 4
               then bind_err (generate_interior ext
                                (case tags ''building'' of None \<Rightarrow> ''house'' | Some b \<Rightarrow> b)
                                (min_x + 1) (min_y + 1) (max_x - 1) (max_y - 1) s5)
                      (\<lambda>(gen, g).
                         Inr (gen\<lparr>interiors_generated := interiors_generated gen + 1\<rparr>, g))
               else Inr s5) (\<lambda>s6.
     bind_err (place_building_npcs ext
                 (case tags ''building'' of None \<Rightarrow> ''house'' | Some b \<Rightarrow> b)
                 (min_x + 1) (min_y + 1) (max_x - 1) (max_y - 1) s6) (\<lambda>(gen, g).
       Inr (gen\<lparr>buildings_processed := buildings_processed gen + 1\<rparr>, g))))))))"
proof -
  from assms(2) have e:
    "py_min (map fst (tiles_of (transformer gen) coords)) = min_x"
    "py_min (map snd (tiles_of (transformer gen) coords)) = min_y"
    "py_max (map fst (tiles_of (transformer gen) coords)) = max_x"
    "py_max (map snd (tiles_of (transformer gen) coords)) = max_y"
    by (simp_all add: footprint_def Let_def)
  from assms(1) have n: "\<not> length coords < 3"
    by simp
  show ?thesis
    unfolding process_building_def Let_def building_shapes_def fst_conv e if_not_P [OF n]
    by (rule refl)
qed

lemma footprint_ordered:
  assumes "coords \<noteq> []" and "footprint tr coords = (min_x, min_y, max_x, max_y)"
  shows "min_x \<le> max_x \<and> min_y \<le> max_y"
  using assms py_min_le_py_max [of "map fst (tiles_of tr coords)"]
    py_min_le_py_max [of "map snd (tiles_of tr coords)"]
  by (auto simp: footprint_def Let_def tiles_of_def)

lemma pair_body:
  "(\<lambda>x s'. bind_err (f (a x) s') (f (b x))) = (\<lambda>x. for_each f [a x, b x])"
  by (rule ext, rule ext) (simp add: bind_err_def split: sum.splits)

lemma for_each_place_object_Inr:
  assumes "shapes \<noteq> []" and "wf_map (ultima_map (fst s))"
    and "for_each (place_object shapes l) ts s = Inr s'"
  shows "wf_map (ultima_map (fst s')) \<and>
         (\<forall>t. \<exists>os. added_objects (ultima_map (fst s)) (ultima_map (fst s')) t os \<and>
                  length os = count_list ts t \<and>
                  list_all (\<lambda>obj. o_lift obj = l \<and> o_shape obj \<in> set shapes) os)"
proof -
  obtain gen g where s: "s = (gen, g)" by (cases s)
  from for_each_place_object [OF assms(1), of gen l ts g] assms(2,3) show ?thesis
    by (auto simp: s)
qed

lemma for_each_paint_tile_Inr:
  assumes "shapes \<noteq> []" and "tile_kept tx ty os s"
    and "for_each (paint_tile shapes) ts s = Inr s'"
  shows "tile_kept tx ty os s'"
proof -
  obtain gen g where s: "s = (gen, g)" by (cases s)
  from assms(2) have wf: "wf_map (ultima_map gen)"
    by (simp add: tile_kept_def s)
  from for_each_paint_tile [OF assms(1) wf, of ts g] assms(2,3) show ?thesis
    by (auto simp: s tile_kept_def added_objects_def)
qed

lemma added_objects_tile_kept:
  assumes "added_objects (ultima_map (fst s)) (ultima_map (fst s')) (tx, ty) os"
    and "wf_map (ultima_map (fst s'))" and "tile_kept tx ty base s"
  shows "tile_kept tx ty (base @ os) s'"
  using assms by (simp add: added_objects_def tile_kept_def)

subsection \<open>Runs on concrete footprints\<close>

lemma osm_to_ultima_7_11:
  "osm_to_ultima (CoordinateTransformer_new (0, 0, 16, 16) (1, 1)) 7 11 = (7, 5)"
  "osm_to_ultima (CoordinateTransformer_new (0, 0, 16, 16) (1, 1)) 7 9 = (7, 7)"
  by (simp_all add: osm_to_ultima_def CoordinateTransformer_new_def Let_def py_int_numeral)

lemma footprint_point:
  "footprint (transformer (MapGenerator_new (0, 0, 16, 16) (1, 1))) [(5, 11), (5, 11), (5, 11)] =
     (5, 5, 5, 5)"
  by (simp add: footprint_def tiles_of_def MapGenerator_new_def osm_to_ultima_5_11 py_min_def
      py_max_def)

lemma footprint_triangle:
  "footprint (transformer (MapGenerator_new (0, 0, 16, 16) (1, 1))) [(5, 11), (7, 11), (7, 9)] =
     (5, 5, 7, 7)"
  by (simp add: footprint_def tiles_of_def MapGenerator_new_def osm_to_ultima_5_11
      osm_to_ultima_7_11 py_min_def py_max_def)

lemma house_shapes:
  "building_shapes [''building'' \<mapsto> ''house''] ''walls'' ''wall'' [151] =
     subscript OBJECT_SHAPES ''wall''"
  "building_shapes [''building'' \<mapsto> ''house''] ''door'' ''door'' [270] = [270, 376, 432, 433]"
  "building_shapes [''building'' \<mapsto> ''house''] ''roof'' ''roof_slate'' [164] =
     [164, 165, 166, 167, 169]"
  by (simp_all add: building_shapes_def get_object_shapes_def OSM_BUILDING_TO_SHAPES_def
      dict_get_def subscript_def List.map_filter_simps OBJECT_SHAPES_def)

lemma place_building_npcs_skip:
  assumes "fst (random_random g) >
     (if (max_x - min_x) * (max_y - min_y) < 16 then double_0_4
      else if (max_x - min_x) * (max_y - min_y) < 36 then 0.5 else double_0_6)"
  shows "place_building_npcs ext bt min_x min_y max_x max_y (gen, g) = Inr (gen, stl g)"
  using assms
  by (simp add: place_building_npcs_def Let_def random_random_def)

lemma wall_shapes_value:
  "subscript OBJECT_SHAPES ''wall'' =
     [151, 152, 205, 206, 218, 219, 220, 221, 253, 266, 273, 308, 344, 345, 346, 348,
      349, 350, 351, 355, 357, 358, 359, 362, 365, 366, 371, 374, 393, 425]"
  by (simp add: subscript_def OBJECT_SHAPES_def)

lemma floor_shapes_value:
  "dict_get TERRAIN_SHAPES ''floor'' [189] = [189, 193, 367, 368, 369, 370, 441]"
  by (simp add: dict_get_def TERRAIN_SHAPES_def)

lemma random_skip: "fst (random_random (sconst 9007199254740991)) > double_0_4"
  by (simp add: random_random_def double_0_4_def)

lemma box_point: "box_tiles 5 5 5 5 = [(5, 5)]"
  by (simp add: box_tiles_def py_range_def upto.simps)

lemma process_building_small_ok:
  assumes "wf_map (ultima_map gen)" and "3 \<le> length coords"
    and "footprint (transformer gen) coords = (min_x, min_y, max_x, max_y)"
    and "max_x - min_x < 4 \<or> max_y - min_y < 4"
    and "\<And>k. fst (random_random (sdrop k g)) >
       (if (max_x - 1 - (min_x + 1)) * (max_y - 1 - (min_y + 1)) < 16 then double_0_4
        else if (max_x - 1 - (min_x + 1)) * (max_y - 1 - (min_y + 1)) < 36 then 0.5
        else double_0_6)"
  shows "\<exists>gen' g'. process_building ext tags coords (gen, g) = Inr (gen', g')"
proof -
  let ?ws = "building_shapes tags ''walls'' ''wall'' [151]"
  let ?ds = "building_shapes tags ''door'' ''door'' [270]"
  let ?rs = "building_shapes tags ''roof'' ''roof_slate'' [164]"
  let ?row = "concat (map (\<lambda>x. [(x, min_y), (x, max_y)]) (py_range min_x (max_x + 1)))"
  let ?col = "concat (map (\<lambda>y. [(min_x, y), (max_x, y)]) (py_range (min_y + 1) max_y))"
  have ws: "?ws \<noteq> []" and ds: "?ds \<noteq> []" and rs: "?rs \<noteq> []"
    by (simp_all add: building_shapes_nonempty)
  have rb: "(\<lambda>x s'. bind_err (place_object ?ws 0 (x, min_y) s') (place_object ?ws 0 (x, max_y))) =
      (\<lambda>x. for_each (place_object ?ws 0) [(x, min_y), (x, max_y)])"
    using pair_body [of "place_object ?ws 0" "\<lambda>x. (x, min_y)" "\<lambda>x. (x, max_y)"] by simp
  have cb: "(\<lambda>y s'. bind_err (place_object ?ws 0 (min_x, y) s') (place_object ?ws 0 (max_x, y))) =
      (\<lambda>y. for_each (place_object ?ws 0) [(min_x, y), (max_x, y)])"
    using pair_body [of "place_object ?ws 0" "\<lambda>y. (min_x, y)" "\<lambda>y. (max_x, y)"] by simp
  from for_each_paint_tile [OF floor_shapes_nonempty assms(1)] obtain gen1 where
    1: "for_each (paint_tile (dict_get TERRAIN_SHAPES ''floor'' [189]))
          (box_tiles min_x min_y max_x max_y) (gen, g) =
        Inr (gen1, sdrop (length (box_tiles min_x min_y max_x max_y)) g)"
    and wf1: "wf_map (ultima_map gen1)"
    by blast
  let ?g1 = "sdrop (length (box_tiles min_x min_y max_x max_y)) g"
  from for_each_place_object [OF ws wf1] obtain gen2 where
    2: "for_each (place_object ?ws 0) ?row (gen1, ?g1) = Inr (gen2, sdrop (length ?row) ?g1)"
    and wf2: "wf_map (ultima_map gen2)"
    by blast
  let ?g2 = "sdrop (length ?row) ?g1"
  from for_each_place_object [OF ws wf2] obtain gen3 where
    3: "for_each (place_object ?ws 0) ?col (gen2, ?g2) = Inr (gen3, sdrop (length ?col) ?g2)"
    and wf3: "wf_map (ultima_map gen3)"
    by blast
  let ?g3 = "sdrop (length ?col) ?g2"
  from for_each_place_object [OF ds wf3, of 0 "[((min_x + max_x) div 2, max_y)]" ?g3]
  obtain gen4 where
    4: "place_object ?ds 0 ((min_x + max_x) div 2, max_y) (gen3, ?g3) = Inr (gen4, sdrop 1 ?g3)"
    and wf4: "wf_map (ultima_map gen4)"
    by (auto split: sum.splits)
  let ?g4 = "sdrop 1 ?g3"
  from for_each_place_object [OF rs wf4] obtain gen5 where
    5: "for_each (place_object ?rs 4) (box_tiles min_x min_y max_x max_y) (gen4, ?g4) =
        Inr (gen5, sdrop (length (box_tiles min_x min_y max_x max_y)) ?g4)"
    by blast
  let ?g5 = "sdrop (length (box_tiles min_x min_y max_x max_y)) ?g4"
  from assms(4) have small: "\<not> (max 1 (max_x - min_x) \<ge> 4 \<and> max 1 (max_y - min_y) \<ge> 4)"
    by auto
  have "\<exists>k. ?g5 = sdrop k g"
    by (simp only: sdrop_add) (rule exI, rule refl)
  then obtain k where k: "?g5 = sdrop k g"
    by blast
  have 7: "place_building_npcs ext bt (min_x + 1) (min_y + 1) (max_x - 1) (max_y - 1) (gen5, ?g5) =
      Inr (gen5, stl ?g5)" for bt
    unfolding k by (rule place_building_npcs_skip) (rule assms(5))
  show ?thesis
    unfolding process_building_unfold [OF assms(2,3)] rb cb for_each_concat
    by (simp only: 1 2 3 4 5 7 bind_err_Inr small if_False split_conv) blast
qed

lemma random_skip_all:
  "fst (random_random (sdrop k (sconst 9007199254740991))) >
     (if a < 16 then double_0_4 else if a < 36 then 0.5 else double_0_6)"
  by (simp add: random_random_def double_0_4_def double_0_6_def)

section \<open>C10: the door tile\<close>

text \<open>
  C10. For every building with at least three resolved vertices that \<open>_process_building\<close>
  processes to its end, on a well-formed map: the door tile
  \<open>((min_x + max_x) div 2, max_y)\<close> receives, in this order, a wall object of the bottom
  edge (lift 0, a wall shape), the door object (lift 0, a door shape) and the roof object
  of the tile (lift 4). When the footprint is one tile high (\<open>min_y = max_y\<close>) the wall
  object of the top edge, which is then the same row, precedes them; otherwise nothing
  does. The door is added after the wall and the wall stays: at lift 0 the tile holds both.
\<close>

theorem process_building_door_tile:
  assumes "wf_map (ultima_map gen)" and "3 \<le> length coords"
    and "footprint (transformer gen) coords = (min_x, min_y, max_x, max_y)"
    and "process_building ext tags coords (gen, g) = Inr (gen', g')"
  shows "\<exists>pre w d r.
     objects_at (ultima_map gen') ((min_x + max_x) div 2) max_y =
       objects_at (ultima_map gen) ((min_x + max_x) div 2) max_y @ pre @ [w, d, r] \<and>
     o_lift w = 0 \<and> o_shape w \<in> set (building_shapes tags ''walls'' ''wall'' [151]) \<and>
     o_lift d = 0 \<and> o_shape d \<in> set (building_shapes tags ''door'' ''door'' [270]) \<and>
     o_lift r = 4 \<and> o_shape r \<in> set (building_shapes tags ''roof'' ''roof_slate'' [164]) \<and>
     list_all (\<lambda>obj. o_lift obj = 0 \<and>
        o_shape obj \<in> set (building_shapes tags ''walls'' ''wall'' [151])) pre \<and>
     length pre = (if min_y = max_y then 1 else 0)"
proof -
  let ?dx = "(min_x + max_x) div 2"
  let ?ws = "building_shapes tags ''walls'' ''wall'' [151]"
  let ?ds = "building_shapes tags ''door'' ''door'' [270]"
  let ?rs = "building_shapes tags ''roof'' ''roof_slate'' [164]"
  let ?bt = "case tags ''building'' of None \<Rightarrow> ''house'' | Some b \<Rightarrow> b"
  let ?base = "objects_at (ultima_map gen) ?dx max_y"
  let ?row = "concat (map (\<lambda>x. [(x, min_y), (x, max_y)]) (py_range min_x (max_x + 1)))"
  let ?col = "concat (map (\<lambda>y. [(min_x, y), (max_x, y)]) (py_range (min_y + 1) max_y))"
  from assms(2) have ne: "coords \<noteq> []"
    by auto
  from footprint_ordered [OF ne assms(3)] have ord: "min_x \<le> max_x" "min_y \<le> max_y"
    by simp_all
  then have dx: "min_x \<le> ?dx" "?dx \<le> max_x"
    by linarith+
  have ws: "?ws \<noteq> []" and ds: "?ds \<noteq> []" and rs: "?rs \<noteq> []"
    by (simp_all add: building_shapes_nonempty)
  have rb: "(\<lambda>x s'. bind_err (place_object ?ws 0 (x, min_y) s') (place_object ?ws 0 (x, max_y))) =
      (\<lambda>x. for_each (place_object ?ws 0) [(x, min_y), (x, max_y)])"
    using pair_body [of "place_object ?ws 0" "\<lambda>x. (x, min_y)" "\<lambda>x. (x, max_y)"] by simp
  have cb: "(\<lambda>y s'. bind_err (place_object ?ws 0 (min_x, y) s') (place_object ?ws 0 (max_x, y))) =
      (\<lambda>y. for_each (place_object ?ws 0) [(min_x, y), (max_x, y)])"
    using pair_body [of "place_object ?ws 0" "\<lambda>y. (min_x, y)" "\<lambda>y. (max_x, y)"] by simp
  from assms(4) [unfolded process_building_unfold [OF assms(2,3)] rb cb for_each_concat]
  obtain s1 s2 s3 s4 s5 s6 s7 where
    1: "for_each (paint_tile (dict_get TERRAIN_SHAPES ''floor'' [189]))
          (box_tiles min_x min_y max_x max_y) (gen, g) = Inr s1"
    and 2: "for_each (place_object ?ws 0) ?row s1 = Inr s2"
    and 3: "for_each (place_object ?ws 0) ?col s2 = Inr s3"
    and 4: "place_object ?ds 0 (?dx, max_y) s3 = Inr s4"
    and 5: "for_each (place_object ?rs 4) (box_tiles min_x min_y max_x max_y) s4 = Inr s5"
    and 6: "(if max 1 (max_x - min_x) \<ge> 4 \<and> max 1 (max_y - min_y) \<ge> 4
               then bind_err (generate_interior ext ?bt
                                (min_x + 1) (min_y + 1) (max_x - 1) (max_y - 1) s5)
                      (\<lambda>(gen, g).
                         Inr (gen\<lparr>interiors_generated := interiors_generated gen + 1\<rparr>, g))
               else Inr s5) = Inr s6"
    and 7: "place_building_npcs ext ?bt (min_x + 1) (min_y + 1) (max_x - 1) (max_y - 1) s6 = Inr s7"
    and 8: "(gen', g') = (fst s7\<lparr>buildings_processed := buildings_processed (fst s7) + 1\<rparr>, snd s7)"
    by (auto simp: bind_err_eq_Inr)
  have k0: "tile_kept ?dx max_y ?base (gen, g)"
    using assms(1) by (simp add: tile_kept_def)
  have k1: "tile_kept ?dx max_y ?base s1"
    by (rule for_each_paint_tile_Inr [OF floor_shapes_nonempty k0 1])
  then have wf1: "wf_map (ultima_map (fst s1))"
    by (simp add: tile_kept_def)
  from for_each_place_object_Inr [OF ws wf1 2] obtain walls where
    wf2: "wf_map (ultima_map (fst s2))"
    and a2: "added_objects (ultima_map (fst s1)) (ultima_map (fst s2)) (?dx, max_y) walls"
    and l2: "length walls = count_list ?row (?dx, max_y)"
    and p2: "list_all (\<lambda>obj. o_lift obj = 0 \<and> o_shape obj \<in> set ?ws) walls"
    by blast
  have c2: "count_list ?row (?dx, max_y) = (if min_y = max_y then 2 else 1)"
    using dx by (auto simp: count_list_concat_pairs count_fixed_row)
  have k2: "tile_kept ?dx max_y (?base @ walls) s2"
    by (rule added_objects_tile_kept [OF a2 wf2 k1])
  have "(?dx, max_y) \<notin> set ?col"
    by (auto simp: set_py_range)
  with 3 k2 have k3: "tile_kept ?dx max_y (?base @ walls) s3"
    by (rule for_each_place_object_elsewhere)
  then have wf3: "wf_map (ultima_map (fst s3))"
    by (simp add: tile_kept_def)
  have d4: "for_each (place_object ?ds 0) [(?dx, max_y)] s3 = Inr s4"
    using 4 by simp
  from for_each_place_object_Inr [OF ds wf3 d4] obtain door where
    wf4: "wf_map (ultima_map (fst s4))"
    and a4: "added_objects (ultima_map (fst s3)) (ultima_map (fst s4)) (?dx, max_y) door"
    and l4: "length door = 1"
    and p4: "list_all (\<lambda>obj. o_lift obj = 0 \<and> o_shape obj \<in> set ?ds) door"
    by force
  have k4: "tile_kept ?dx max_y ((?base @ walls) @ door) s4"
    by (rule added_objects_tile_kept [OF a4 wf4 k3])
  from for_each_place_object_Inr [OF rs wf4 5] obtain roof where
    wf5: "wf_map (ultima_map (fst s5))"
    and a5: "added_objects (ultima_map (fst s4)) (ultima_map (fst s5)) (?dx, max_y) roof"
    and l5: "length roof = count_list (box_tiles min_x min_y max_x max_y) (?dx, max_y)"
    and p5: "list_all (\<lambda>obj. o_lift obj = 4 \<and> o_shape obj \<in> set ?rs) roof"
    by blast
  have c5: "count_list (box_tiles min_x min_y max_x max_y) (?dx, max_y) = 1"
    using dx ord by (simp add: count_box_tiles)
  let ?all = "((?base @ walls) @ door) @ roof"
  have k5: "tile_kept ?dx max_y ?all s5"
    by (rule added_objects_tile_kept [OF a5 wf5 k4])
  have out: "\<not> (min_x + 1 \<le> ?dx \<and> ?dx \<le> max_x - 1 \<and> min_y + 1 \<le> max_y \<and> max_y \<le> max_y - 1)"
    by simp
  have k6: "tile_kept ?dx max_y ?all s6"
  proof (cases "max 1 (max_x - min_x) \<ge> 4 \<and> max 1 (max_y - min_y) \<ge> 4")
    case True
    with 6 obtain s5' where
      g: "generate_interior ext ?bt (min_x + 1) (min_y + 1) (max_x - 1) (max_y - 1) s5 = Inr s5'"
      and s6: "s6 = (fst s5'\<lparr>interiors_generated := interiors_generated (fst s5') + 1\<rparr>, snd s5')"
      by (auto simp: bind_err_eq_Inr)
    from generate_interior_elsewhere [OF g k5 out] show ?thesis
      by (simp add: s6 tile_kept_def)
  next
    case False
    with 6 k5 show ?thesis
      by auto
  qed
  have k7: "tile_kept ?dx max_y ?all s7"
    by (rule place_building_npcs_elsewhere [OF 7 k6 out])
  with 8 have fin: "objects_at (ultima_map gen') ?dx max_y = ?all"
    by (simp add: tile_kept_def)
  have lw: "length walls = (if min_y = max_y then 2 else 1)"
    by (simp only: l2 c2)
  then have "walls \<noteq> []"
    by (auto split: if_splits)
  then obtain pre w where walls: "walls = pre @ [w]"
    by (metis rev_exhaust)
  from l4 obtain d where door: "door = [d]"
    by (cases door) auto
  have "length roof = 1"
    by (simp only: l5 c5)
  then obtain r where roof: "roof = [r]"
    by (cases roof) auto
  show ?thesis
  proof (intro exI conjI)
    show "objects_at (ultima_map gen') ?dx max_y = ?base @ pre @ [w, d, r]"
      by (simp add: fin walls door roof)
    show "o_lift w = 0" "o_shape w \<in> set ?ws"
      "list_all (\<lambda>obj. o_lift obj = 0 \<and> o_shape obj \<in> set ?ws) pre"
      using p2 by (simp_all add: walls)
    show "o_lift d = 0" "o_shape d \<in> set ?ds"
      using p4 by (simp_all add: door)
    show "o_lift r = 4" "o_shape r \<in> set ?rs"
      using p5 by (simp_all add: roof)
    show "length pre = (if min_y = max_y then 1 else 0)"
      using lw by (auto simp: walls split: if_splits)
  qed
qed

theorem process_building_door_tile_witness:
  "wf_map (ultima_map (MapGenerator_new (0, 0, 16, 16) (1, 1))) \<and>
   3 \<le> length [(5, 11), (7, 11), (7, 9 :: real)] \<and>
   footprint (transformer (MapGenerator_new (0, 0, 16, 16) (1, 1)))
     [(5, 11), (7, 11), (7, 9)] = (5, 5, 7, 7) \<and>
   (\<exists>gen' g'.
      process_building no_externals [''building'' \<mapsto> ''house''] [(5, 11), (7, 11), (7, 9)]
        (MapGenerator_new (0, 0, 16, 16) (1, 1), sconst 9007199254740991) = Inr (gen', g') \<and>
      (\<exists>w d r. objects_at (ultima_map gen') 6 7 = [w, d, r] \<and>
         o_lift w = 0 \<and> o_lift d = 0 \<and> o_lift r = 4 \<and>
         o_shape d \<in> {270, 376, 432, 433}))"
proof -
  let ?G = "MapGenerator_new (0, 0, 16, 16) (1, 1)"
  let ?C = "[(5, 11), (7, 11), (7, 9 :: real)]"
  let ?T = "[''building'' \<mapsto> ''house'']"
  have wf: "wf_map (ultima_map ?G)"
    by (rule wf_map_MapGenerator_new)
  have len: "3 \<le> length ?C"
    by simp
  from process_building_small_ok [OF wf len footprint_triangle _ random_skip_all,
      of no_externals ?T]
  obtain gen' g' where run: "process_building no_externals ?T ?C
      (?G, sconst 9007199254740991) = Inr (gen', g')"
    by auto
  from process_building_door_tile [OF wf len footprint_triangle run]
  obtain pre w d r where
    "objects_at (ultima_map gen') 6 7 = pre @ [w, d, r]" "length pre = 0"
    "o_lift w = 0" "o_lift d = 0" "o_lift r = 4" "o_shape d \<in> {270, 376, 432, 433}"
    by (auto simp: objects_at_new house_shapes)
  with wf len footprint_triangle run show ?thesis
    by auto
qed


section \<open>C3: footprints that are skipped\<close>

text \<open>
  C3 (amended). A building with fewer than three resolved vertices is skipped entirely:
  \<open>_process_building\<close> returns at once, and the session (terrain, objects, NPC profiles,
  counters) and the random generator are as they were.
\<close>

theorem process_building_few_vertices:
  assumes "length coords < 3"
  shows "process_building ext tags coords s = Inr s"
  using assms by (simp add: process_building_def)

theorem process_building_few_vertices_witness:
  "length [(5, 11), (6, 11 :: real)] < 3 \<and>
   process_building no_externals [''building'' \<mapsto> ''house''] [(5, 11), (6, 11)]
     (MapGenerator_new (0, 0, 16, 16) (1, 1), sconst 9007199254740991) =
   Inr (MapGenerator_new (0, 0, 16, 16) (1, 1), sconst 9007199254740991)"
  using process_building_few_vertices [of "[(5, 11), (6, 11)]" no_externals
      "[''building'' \<mapsto> ''house'']"
      "(MapGenerator_new (0, 0, 16, 16) (1, 1), sconst 9007199254740991)"]
  by simp

text \<open>
  The claim as stated (a footprint less than three tiles wide or high is skipped) fails:
  the source tests the number of vertices, not the size of the bounding box. Three
  vertices that fall on the one tile (5, 5) give a footprint of a single tile, which gets
  its floor terrain (shape 368), the wall objects of the top and of the bottom edge, the
  door and the roof.
\<close>

theorem process_building_one_tile:
  "(case process_building no_externals [''building'' \<mapsto> ''house'']
           [(5, 11), (5, 11), (5, 11)]
           (MapGenerator_new (0, 0, 16, 16) (1, 1), sconst 9007199254740991) of
      Inl e \<Rightarrow> False
    | Inr (gen', g') \<Rightarrow>
        terrain_at (ultima_map gen') 5 5 = Some 368 \<and>
        map (\<lambda>obj. (o_shape obj, o_lift obj)) (objects_at (ultima_map gen') 5 5) =
          [(152, 0), (152, 0), (433, 0), (165, 4)])"
  unfolding process_building_unfold [OF _ footprint_point, simplified]
  by (simp add: house_shapes wall_shapes_value floor_shapes_value box_point py_range_def
      upto.simps paint_tile_def place_object_def random_choice_def bind_err_def
      place_building_npcs_skip random_skip MapGenerator_new_def UltimaMap_new_def
      set_terrain_def add_object_def get_chunk_def update_chunk_def terrain_store_def
      UltimaChunk_new_def UltimaObject_new_def terrain_at_def objects_at_def chunk_objects_def)

end
